theory Spec2Isabelle
  imports Complex_Main "HOL-Library.AList" "HOL-Library.Sublist"
begin

section \<open>Values, dictionaries and exceptions\<close>

text \<open>
  The agent (\<^verbatim>\<open>agent.py\<close>) handles values that come out of \<^verbatim>\<open>json.load\<close> and
  values it puts into the report. Both are JSON values. A Python float is modelled by
  the rational number it denotes. A Python \<^verbatim>\<open>dict\<close> keeps insertion order, so it is
  an association list; a well-formed dictionary has distinct keys.
\<close>

datatype json =
    JNull
  | JBool bool
  | JInt int
  | JFloat rat
  | JStr string
  | JArr "json list"
  | JObj "(string \<times> json) list"

type_synonym dict = "(string \<times> json) list"

text \<open>\<^verbatim>\<open>d[k] = v\<close>: an existing key keeps its position and takes the new value, a new key
  is appended.\<close>

definition dict_set :: "dict \<Rightarrow> string \<Rightarrow> json \<Rightarrow> dict" where
  "dict_set d k v = AList.update k v d"

text \<open>\<^verbatim>\<open>**other\<close> inside a dictionary display (and \<^verbatim>\<open>d.update(other)\<close>): the items of
  \<^verbatim>\<open>other\<close> are stored one after the other, in their order.\<close>

definition dict_update :: "dict \<Rightarrow> dict \<Rightarrow> dict" where
  "dict_update d other = fold (\<lambda>(k, v) acc. dict_set acc k v) other d"

text \<open>\<^verbatim>\<open>d.get(k)\<close>, with \<open>None\<close> for a missing key.\<close>

definition dict_get :: "dict \<Rightarrow> string \<Rightarrow> json option" where
  "dict_get d k = map_of d k"

text \<open>\<^verbatim>\<open>d.get(k, default)\<close>.\<close>

definition dict_get_default :: "dict \<Rightarrow> string \<Rightarrow> json \<Rightarrow> json" where
  "dict_get_default d k dflt = (case dict_get d k of None \<Rightarrow> dflt | Some v \<Rightarrow> v)"

text \<open>
  The instances of Python's \<^verbatim>\<open>Exception\<close> that the program raises itself or names in an
  \<^verbatim>\<open>except\<close> clause; \<open>OtherException\<close> stands for an instance of any other class.
  \<^verbatim>\<open>requests.exceptions.ConnectTimeout\<close> inherits from both \<^verbatim>\<open>ConnectionError\<close> and
  \<^verbatim>\<open>Timeout\<close>, \<^verbatim>\<open>ReadTimeout\<close> from \<^verbatim>\<open>Timeout\<close> only.
  \<^verbatim>\<open>SystemExit\<close> is not an \<^verbatim>\<open>Exception\<close>: it is a result of its own.
\<close>

datatype exn =
    KeyError string
  | TypeError
  | OverflowError
  | FileNotFoundError
  | JSONDecodeError
  | NoSuchProcess
  | AccessDenied
  | ConnectionError
  | ConnectTimeout
  | ReadTimeout
  | ZeroDivisionError
  | OtherException string

fun is_ConnectionError :: "exn \<Rightarrow> bool" where
  "is_ConnectionError ConnectionError = True"
| "is_ConnectionError ConnectTimeout = True"
| "is_ConnectionError _ = False"

fun is_Timeout :: "exn \<Rightarrow> bool" where
  "is_Timeout ConnectTimeout = True"
| "is_Timeout ReadTimeout = True"
| "is_Timeout _ = False"

datatype 'a result = Return 'a | Raise exn | SysExit int

datatype level = DEBUG | INFO | WARNING | ERROR

type_synonym log = "(level \<times> string) list"

section \<open>The process probe\<close>

text \<open>
  What \<^verbatim>\<open>proc.info["name"]\<close> does for one entry of \<^verbatim>\<open>psutil.process_iter(["name"])\<close>:
  it yields the name (\<open>None\<close> when psutil could not read it), or raises one of the two
  exceptions that the loop body catches.
\<close>

datatype proc_read = Name "string option" | RaisesNoSuchProcess | RaisesAccessDenied

fun name_value :: "string option \<Rightarrow> json" where
  "name_value None = JNull"
| "name_value (Some s) = JStr s"

text \<open>
  \<^verbatim>\<open>name in test_processes\<close>, for a name that is a string or \<open>None\<close>. On a list it compares
  with \<^verbatim>\<open>==\<close>; on a string it is the substring test and refuses \<open>None\<close>; on a
  dictionary it looks among the keys; anything else is not a container.
\<close>

fun py_in :: "string option \<Rightarrow> json \<Rightarrow> exn + bool" where
  "py_in n (JArr xs) = Inr (name_value n \<in> set xs)"
| "py_in (Some s) (JStr t) = Inr (sublist s t)"
| "py_in None (JStr t) = Inl TypeError"
| "py_in (Some s) (JObj kvs) = Inr (s \<in> set (map fst kvs))"
| "py_in None (JObj kvs) = Inr False"
| "py_in n _ = Inl TypeError"

text \<open>The loop of \<^verbatim>\<open>check_test_running\<close> over the process table.\<close>

fun scan_processes :: "json \<Rightarrow> proc_read list \<Rightarrow> (bool \<times> string option) result" where
  "scan_processes test_processes [] = Return (False, None)"
| "scan_processes test_processes (Name n # procs) =
     (case py_in n test_processes of
        Inl e \<Rightarrow> Raise e
      | Inr True \<Rightarrow> Return (True, n)
      | Inr False \<Rightarrow> scan_processes test_processes procs)"
| "scan_processes test_processes (RaisesNoSuchProcess # procs) =
     scan_processes test_processes procs"
| "scan_processes test_processes (RaisesAccessDenied # procs) =
     scan_processes test_processes procs"

definition check_test_running :: "dict \<Rightarrow> proc_read list \<Rightarrow> (bool \<times> string option) result" where
  "check_test_running config procs =
     scan_processes (dict_get_default config ''test_process_names'' (JArr [])) procs"

section \<open>Floating-point arithmetic\<close>

text \<open>
  Python floats are IEEE binary64 numbers. \<open>binary64 x\<close> is the float nearest to the
  rational \<open>x\<close> (ties to the even significand; 53 significant bits, with the fixed
  spacing of the subnormal range below \<open>2 powi (- 1022)\<close>). Every float operation of
  the agent is the exact operation followed by this rounding.
\<close>

fun bit_length :: "nat \<Rightarrow> nat" where
  "bit_length n = (if n = 0 then 0 else Suc (bit_length (n div 2)))"

declare bit_length.simps [simp del]

text \<open>The integer part of the binary logarithm of a positive rational.\<close>

definition floor_log2 :: "rat \<Rightarrow> int" where
  "floor_log2 x =
     (if 1 \<le> x then int (bit_length (nat \<lfloor>x\<rfloor>)) - 1
      else - int (bit_length (nat (\<lceil>1 / x\<rceil> - 1))))"

definition round_half_even :: "rat \<Rightarrow> int" where
  "round_half_even x =
     (let f = \<lfloor>x\<rfloor>; d = x - of_int f
      in if d < 1 / 2 then f
         else if 1 / 2 < d then f + 1
         else if even f then f else f + 1)"

definition binary64 :: "rat \<Rightarrow> rat" where
  "binary64 x =
     (if x = 0 then 0
      else let e = max (floor_log2 \<bar>x\<bar>) (- 1022);
               u = 2 powi (e - 52)
           in of_int (round_half_even (x / u)) * u)"

definition float_max :: rat where
  "float_max = (2 ^ 53 - 1) * 2 ^ 971"

text \<open>\<^verbatim>\<open>a / b\<close> on two Python ints: the correctly rounded quotient.\<close>

definition int_truediv :: "int \<Rightarrow> int \<Rightarrow> exn + rat" where
  "int_truediv a b =
     (if b = 0 then Inl ZeroDivisionError
      else let q = binary64 (of_int a / of_int b)
           in if float_max < \<bar>q\<bar> then Inl OverflowError else Inr q)"

text \<open>\<^verbatim>\<open>x / 3600\<close> on a float and a non-zero int constant.\<close>

definition float_div :: "rat \<Rightarrow> int \<Rightarrow> rat" where
  "float_div x n = binary64 (x / of_int n)"

text \<open>
  \<^verbatim>\<open>round(x, ndigits)\<close> on a float, for the digit counts 1 and 2 of the agent: the
  decimal with \<open>ndigits\<close> digits after the point that is nearest to \<open>x\<close> (exact ties
  to the even digit), converted back to the nearest float.
\<close>

definition py_round :: "rat \<Rightarrow> nat \<Rightarrow> rat" where
  "py_round x ndigits =
     binary64 (of_int (round_half_even (x * 10 ^ ndigits)) / 10 ^ ndigits)"

text \<open>
  A naive \<^verbatim>\<open>datetime\<close> is its count of microseconds; a \<^verbatim>\<open>timedelta\<close> likewise.
  \<^verbatim>\<open>timedelta.total_seconds()\<close> divides the microseconds by \<open>10^6\<close>.
\<close>

definition total_seconds :: "int \<Rightarrow> rat" where
  "total_seconds delta = binary64 (of_int delta / 1000000)"

section \<open>The environment of one run\<close>

record vmem =
  vm_percent :: rat
  vm_used :: int
  vm_total :: int

record dusage =
  du_percent :: rat
  du_free :: int

record response =
  status_code :: int
  resp_text :: string

text \<open>
  Everything the agent asks of the operating system and of its libraries during one
  run, each call site with its own outcome (\<open>Inl\<close>: the call raises). The fields, in
  the order of the source: the configuration file (\<^verbatim>\<open>open\<close> and \<^verbatim>\<open>json.load\<close>);
  \<^verbatim>\<open>datetime.fromtimestamp(psutil.boot_time())\<close>; \<^verbatim>\<open>psutil.cpu_percent(interval=1)\<close>;
  the three calls of \<^verbatim>\<open>psutil.virtual_memory()\<close>; the two calls of
  \<^verbatim>\<open>psutil.disk_usage\<close>; \<^verbatim>\<open>datetime.now()\<close>; the process table; the two socket
  calls; \<^verbatim>\<open>datetime.now(timezone.utc).isoformat()\<close> in \<^verbatim>\<open>run\<close> and in
  \<^verbatim>\<open>collect_status\<close>; \<^verbatim>\<open>platform.platform()\<close>; \<^verbatim>\<open>requests.post\<close> (URL, JSON body,
  headers, timeout); and \<^verbatim>\<open>str()\<close> as the f-strings apply it to values and to
  exceptions.
\<close>

record env =
  config_path :: string
  open_json_load :: "exn + json"
  psutil_boot_time :: "exn + int"
  psutil_cpu_percent :: "exn + rat"
  psutil_virtual_memory_1 :: "exn + vmem"
  psutil_virtual_memory_2 :: "exn + vmem"
  psutil_virtual_memory_3 :: "exn + vmem"
  psutil_disk_usage_1 :: "exn + dusage"
  psutil_disk_usage_2 :: "exn + dusage"
  datetime_now :: int
  psutil_process_iter :: "proc_read list"
  socket_gethostname :: "exn + string"
  socket_gethostbyname :: "string \<Rightarrow> exn + string"
  utc_isoformat_run :: string
  utc_isoformat_status :: string
  platform_platform :: string
  requests_post :: "string \<Rightarrow> dict \<Rightarrow> (string \<times> string) list \<Rightarrow> nat \<Rightarrow> exn + response"
  str_value :: "json \<Rightarrow> string"
  str_exn :: "exn \<Rightarrow> string"

text \<open>\<^verbatim>\<open>str()\<close> of a Python int: its decimal digits, after a minus sign when it is
  negative.\<close>

definition digit_char :: "nat \<Rightarrow> char" where
  "digit_char d = ''0123456789'' ! d"

fun str_nat :: "nat \<Rightarrow> string" where
  "str_nat n = (if n < 10 then [digit_char n] else str_nat (n div 10) @ [digit_char (n mod 10)])"

declare str_nat.simps [simp del]

definition str_int :: "int \<Rightarrow> string" where
  "str_int i = (if i < 0 then CHR ''-'' # str_nat (nat (- i)) else str_nat (nat i))"

text \<open>\<^verbatim>\<open>{v}\<close> in an f-string: a string stands for itself, an int is written in decimal;
  the text of any other value is left to the environment.\<close>

definition py_str :: "env \<Rightarrow> json \<Rightarrow> string" where
  "py_str os v =
     (case v of JStr s \<Rightarrow> s | JInt i \<Rightarrow> str_int i | _ \<Rightarrow> str_value os v)"

definition newline :: string where
  "newline = [CHR 0x0A]"

text \<open>Sequencing of calls that may raise: the first exception ends the evaluation.\<close>

definition and_then :: "exn + 'a \<Rightarrow> ('a \<Rightarrow> exn + 'b) \<Rightarrow> exn + 'b" where
  "and_then r f = (case r of Inl e \<Rightarrow> Inl e | Inr x \<Rightarrow> f x)"

section \<open>The agent\<close>

record agent =
  config :: dict
  server_url :: json
  api_key :: json
  rig_id :: json
  metadata :: json

text \<open>
  The module's top level runs \<^verbatim>\<open>setup_logger()\<close> and four logger calls before
  anything else. A log is the sequence of calls made on the logger.
\<close>

definition module_log :: log where
  "module_log =
     [(INFO, ''Agent starting''), (DEBUG, ''Debug info''),
      (WARNING, ''Warning message''), (ERROR, ''Error occurred'')]"

text \<open>\<^verbatim>\<open>load_config\<close>: two exceptions are logged and turned into \<^verbatim>\<open>sys.exit(1)\<close>, any
  other one leaves the function.\<close>

definition load_config :: "env \<Rightarrow> log \<Rightarrow> json result \<times> log" where
  "load_config os lg =
     (case open_json_load os of
        Inr c \<Rightarrow> (Return c, lg)
      | Inl FileNotFoundError \<Rightarrow>
          (SysExit 1, lg @ [(ERROR, ''Config file not found at '' @ config_path os)])
      | Inl JSONDecodeError \<Rightarrow>
          (SysExit 1,
           lg @ [(ERROR, ''Invalid JSON in config file'' @ newline @ str_exn os JSONDecodeError)])
      | Inl e \<Rightarrow> (Raise e, lg))"

text \<open>\<^verbatim>\<open>self.config[k]\<close> on whatever \<^verbatim>\<open>json.load\<close> returned.\<close>

definition getitem :: "json \<Rightarrow> string \<Rightarrow> exn + json" where
  "getitem c k =
     (case c of
        JObj d \<Rightarrow> (case dict_get d k of None \<Rightarrow> Inl (KeyError k) | Some v \<Rightarrow> Inr v)
      | _ \<Rightarrow> Inl TypeError)"

text \<open>\<^verbatim>\<open>RigAgent.__init__\<close>. The three subscripts have succeeded when
  \<^verbatim>\<open>self.config.get\<close> is reached, so the configuration is a dictionary there.\<close>

definition RigAgent_init :: "env \<Rightarrow> log \<Rightarrow> agent result \<times> log" where
  "RigAgent_init os lg =
     (case load_config os lg of
        (Raise e, lg1) \<Rightarrow> (Raise e, lg1)
      | (SysExit n, lg1) \<Rightarrow> (SysExit n, lg1)
      | (Return c, lg1) \<Rightarrow>
          (case and_then (getitem c ''server_url'') (\<lambda>url.
                and_then (getitem c ''api_key'') (\<lambda>key.
                and_then (getitem c ''rig_id'') (\<lambda>rid.
                  Inr (url, key, rid)))) of
             Inl e \<Rightarrow> (Raise e, lg1)
           | Inr (url, key, rid) \<Rightarrow>
               (case c of
                  JObj d \<Rightarrow>
                    (Return \<lparr>config = d, server_url = url, api_key = key, rig_id = rid,
                             metadata = dict_get_default d ''metadata'' (JObj [])\<rparr>, lg1)
                | _ \<Rightarrow> (Raise TypeError, lg1))))"

text \<open>The dictionary display inside the \<^verbatim>\<open>try\<close> of \<^verbatim>\<open>collect_system_status\<close>: its
  values are evaluated from top to bottom.\<close>

definition system_status_display :: "env \<Rightarrow> int \<Rightarrow> exn + dict" where
  "system_status_display os boot_time =
     and_then (psutil_cpu_percent os) (\<lambda>cpu.
     and_then (psutil_virtual_memory_1 os) (\<lambda>vm1.
     and_then (psutil_virtual_memory_2 os) (\<lambda>vm2.
     and_then (int_truediv (vm_used vm2) (1024 ^ 3)) (\<lambda>used_gb.
     and_then (psutil_virtual_memory_3 os) (\<lambda>vm3.
     and_then (int_truediv (vm_total vm3) (1024 ^ 3)) (\<lambda>total_gb.
     and_then (psutil_disk_usage_1 os) (\<lambda>du1.
     and_then (psutil_disk_usage_2 os) (\<lambda>du2.
     and_then (int_truediv (du_free du2) (1024 ^ 3)) (\<lambda>free_gb.
       Inr [(''cpu_percent'', JFloat cpu),
            (''memory_percent'', JFloat (vm_percent vm1)),
            (''memory_used_gb'', JFloat (py_round used_gb 2)),
            (''memory_total_gb'', JFloat (py_round total_gb 2)),
            (''disk_percent'', JFloat (du_percent du1)),
            (''disk_free_gb'', JFloat (py_round free_gb 2)),
            (''uptime_hours'',
               JFloat (py_round
                 (float_div (total_seconds (datetime_now os - boot_time)) 3600) 1))])))))))))"

text \<open>\<^verbatim>\<open>collect_system_status\<close>: the boot time is read before the \<^verbatim>\<open>try\<close>.\<close>

definition collect_system_status :: "env \<Rightarrow> log \<Rightarrow> dict result \<times> log" where
  "collect_system_status os lg =
     (case psutil_boot_time os of
        Inl e \<Rightarrow> (Raise e, lg)
      | Inr boot_time \<Rightarrow>
          (case system_status_display os boot_time of
             Inr d \<Rightarrow> (Return d, lg)
           | Inl e \<Rightarrow>
               (Return [],
                lg @ [(ERROR, ''Error collecting system status'' @ newline @ str_exn os e)])))"

definition get_network_info :: "env \<Rightarrow> log \<Rightarrow> dict result \<times> log" where
  "get_network_info os lg =
     (case and_then (socket_gethostname os) (\<lambda>hostname.
           and_then (socket_gethostbyname os hostname) (\<lambda>ip_address.
             Inr [(''hostname'', JStr hostname), (''ip_address'', JStr ip_address)])) of
        Inr d \<Rightarrow> (Return d, lg)
      | Inl e \<Rightarrow>
          (Return [(''hostname'', JStr ''unknown''), (''ip_address'', JStr ''unknown'')],
           lg @ [(ERROR, ''Error getting network info'' @ newline @ str_exn os e)]))"

text \<open>\<^verbatim>\<open>**self.metadata\<close> needs a mapping.\<close>

definition unpack_mapping :: "json \<Rightarrow> exn + dict" where
  "unpack_mapping v = (case v of JObj d \<Rightarrow> Inr d | _ \<Rightarrow> Inl TypeError)"

text \<open>The dictionary display of \<^verbatim>\<open>collect_status\<close>, item by item.\<close>

definition status_display ::
  "agent \<Rightarrow> env \<Rightarrow> bool \<Rightarrow> string option \<Rightarrow> dict \<Rightarrow> dict \<Rightarrow> dict \<Rightarrow> dict" where
  "status_display self os is_testing test_name network_info system_status md =
     dict_set (dict_set
       (dict_update (dict_update (dict_update
          (dict_set (dict_set (dict_set (dict_set (dict_set []
             ''rig_id'' (rig_id self))
             ''timestamp'' (JStr (utc_isoformat_status os)))
             ''status'' (JStr (if is_testing then ''busy'' else ''available'')))
             ''is_testing'' (JBool is_testing))
             ''test_name'' (name_value test_name))
          network_info) system_status) md)
       ''agent_version'' (JStr ''1.0.0''))
       ''os'' (JStr (platform_platform os))"

definition collect_status :: "agent \<Rightarrow> env \<Rightarrow> log \<Rightarrow> dict result \<times> log" where
  "collect_status self os lg =
     (case check_test_running (config self) (psutil_process_iter os) of
        Raise e \<Rightarrow> (Raise e, lg)
      | SysExit n \<Rightarrow> (SysExit n, lg)
      | Return (is_testing, test_name) \<Rightarrow>
          (case get_network_info os lg of
             (Raise e, lg1) \<Rightarrow> (Raise e, lg1)
           | (SysExit n, lg1) \<Rightarrow> (SysExit n, lg1)
           | (Return network_info, lg1) \<Rightarrow>
               (case collect_system_status os lg1 of
                  (Raise e, lg2) \<Rightarrow> (Raise e, lg2)
                | (SysExit n, lg2) \<Rightarrow> (SysExit n, lg2)
                | (Return system_status, lg2) \<Rightarrow>
                    (case unpack_mapping (metadata self) of
                       Inl e \<Rightarrow> (Raise e, lg2)
                     | Inr md \<Rightarrow>
                         (Return (status_display self os is_testing test_name
                                    network_info system_status md), lg2)))))"

definition heartbeat_url :: "agent \<Rightarrow> env \<Rightarrow> string" where
  "heartbeat_url self os = py_str os (server_url self) @ ''/api/heartbeat''"

definition heartbeat_headers :: "agent \<Rightarrow> env \<Rightarrow> (string \<times> string) list" where
  "heartbeat_headers self os =
     [(''Authorization'', ''Bearer '' @ py_str os (api_key self)),
      (''Content-Type'', ''application/json'')]"

text \<open>\<^verbatim>\<open>send_heartbeat\<close>: the \<^verbatim>\<open>except\<close> clauses are tried in the order of the
  source, the last one takes every \<^verbatim>\<open>Exception\<close>.\<close>

definition send_heartbeat :: "agent \<Rightarrow> env \<Rightarrow> dict \<Rightarrow> log \<Rightarrow> bool result \<times> log" where
  "send_heartbeat self os status lg =
     (case requests_post os (heartbeat_url self os) status (heartbeat_headers self os) 15 of
        Inr response \<Rightarrow>
          if status_code response = 200
          then (Return True,
                lg @ [(INFO, ''Heartbeat sent successfully for '' @ py_str os (rig_id self))])
          else (Return False,
                lg @ [(ERROR, ''Server returned status ''
                         @ py_str os (JInt (status_code response))
                         @ '': '' @ resp_text response)])
      | Inl e \<Rightarrow>
          if is_ConnectionError e
          then (Return False,
                lg @ [(ERROR, ''Cannot connect to server at '' @ py_str os (server_url self))])
          else if is_Timeout e
          then (Return False, lg @ [(ERROR, ''Server request timed out'')])
          else (Return False,
                lg @ [(ERROR, ''Error sending heartbeat'' @ newline @ str_exn os e)]))"

text \<open>\<^verbatim>\<open>run\<close>: an \<^verbatim>\<open>Exception\<close> out of either call is logged and becomes
  \<^verbatim>\<open>sys.exit(1)\<close>; the value of \<^verbatim>\<open>send_heartbeat\<close> is dropped.\<close>

definition run :: "agent \<Rightarrow> env \<Rightarrow> log \<Rightarrow> unit result \<times> log" where
  "run self os lg =
     (let lg0 = lg @ [(INFO, ''HIL Agent Run at '' @ utc_isoformat_run os)]
      in case collect_status self os lg0 of
           (Raise e, lg1) \<Rightarrow>
             (SysExit 1, lg1 @ [(ERROR, ''Error in agent run'' @ newline @ str_exn os e)])
         | (SysExit n, lg1) \<Rightarrow> (SysExit n, lg1)
         | (Return status, lg1) \<Rightarrow>
             (case send_heartbeat self os status lg1 of
                (Raise e, lg2) \<Rightarrow>
                  (SysExit 1, lg2 @ [(ERROR, ''Error in agent run'' @ newline @ str_exn os e)])
              | (SysExit n, lg2) \<Rightarrow> (SysExit n, lg2)
              | (Return sent, lg2) \<Rightarrow> (Return (), lg2)))"

text \<open>
  The script: build the agent, run it once. The interpreter ends with status 0 when the
  script is through, with the argument of \<^verbatim>\<open>sys.exit\<close>, or, after printing the traceback
  of an exception nobody caught, with status 1.
\<close>

datatype outcome = Completed | Exited int | Died exn

definition main :: "env \<Rightarrow> outcome \<times> log" where
  "main os =
     (case RigAgent_init os module_log of
        (Raise e, lg) \<Rightarrow> (Died e, lg)
      | (SysExit n, lg) \<Rightarrow> (Exited n, lg)
      | (Return self, lg) \<Rightarrow>
          (case run self os lg of
             (Raise e, lg1) \<Rightarrow> (Died e, lg1)
           | (SysExit n, lg1) \<Rightarrow> (Exited n, lg1)
           | (Return u, lg1) \<Rightarrow> (Completed, lg1)))"

fun exit_status :: "outcome \<Rightarrow> int" where
  "exit_status Completed = 0"
| "exit_status (Exited n) = n"
| "exit_status (Died e) = 1"

section \<open>The fields of the report\<close>

text \<open>
  The keys that \<^verbatim>\<open>collect_status\<close>, \<^verbatim>\<open>get_network_info\<close> and
  \<^verbatim>\<open>collect_system_status\<close> write before the metadata is merged: the rig's identity,
  the fields of the status, of the network probe and of the system snapshot.
\<close>

definition identity_fields :: "string list" where
  "identity_fields = [''rig_id'']"

definition status_fields :: "string list" where
  "status_fields = [''timestamp'', ''status'', ''is_testing'', ''test_name'']"

definition network_fields :: "string list" where
  "network_fields = [''hostname'', ''ip_address'']"

definition snapshot_fields :: "string list" where
  "snapshot_fields =
     [''cpu_percent'', ''memory_percent'', ''memory_used_gb'', ''memory_total_gb'',
      ''disk_percent'', ''disk_free_gb'', ''uptime_hours'']"

section \<open>A sample run\<close>

text \<open>
  A configuration with the three required keys and one workload name, on a machine
  where every query succeeds, no workload process runs and the server answers 200:
  1 GiB of 2 GiB of memory in use, 128 MiB of disk free, booted 180 seconds ago.
\<close>

definition sample_config :: dict where
  "sample_config =
     [(''server_url'', JStr ''http://x''), (''api_key'', JStr ''k''),
      (''rig_id'', JStr ''r1''), (''test_process_names'', JArr [JStr ''hil.exe''])]"

definition sample_agent :: agent where
  "sample_agent =
     \<lparr>config = sample_config, server_url = JStr ''http://x'', api_key = JStr ''k'',
      rig_id = JStr ''r1'', metadata = JObj []\<rparr>"

definition sample_vmem :: vmem where
  "sample_vmem = \<lparr>vm_percent = 50, vm_used = 1073741824, vm_total = 2147483648\<rparr>"

definition sample_dusage :: dusage where
  "sample_dusage = \<lparr>du_percent = 75, du_free = 134217728\<rparr>"

definition sample_env :: env where
  "sample_env =
     \<lparr>config_path = ''config.json'',
      open_json_load = Inr (JObj sample_config),
      psutil_boot_time = Inr 0,
      psutil_cpu_percent = Inr (25 / 2),
      psutil_virtual_memory_1 = Inr sample_vmem,
      psutil_virtual_memory_2 = Inr sample_vmem,
      psutil_virtual_memory_3 = Inr sample_vmem,
      psutil_disk_usage_1 = Inr sample_dusage,
      psutil_disk_usage_2 = Inr sample_dusage,
      datetime_now = 180000000,
      psutil_process_iter =
        [Name (Some ''python.exe''), RaisesAccessDenied, Name None, Name (Some ''hil'')],
      socket_gethostname = Inr ''rig'',
      socket_gethostbyname = (\<lambda>h. Inr ''10.0.0.7''),
      utc_isoformat_run = ''2025-01-01T00:00:00+00:00'',
      utc_isoformat_status = ''2025-01-01T00:00:01+00:00'',
      platform_platform = ''Windows-10'',
      requests_post = (\<lambda>url body headers tmo. Inr \<lparr>status_code = 200, resp_text = ''ok''\<rparr>),
      str_value = (\<lambda>v. ''<value>''),
      str_exn = (\<lambda>e. ''<exception>'')\<rparr>"

text \<open>The same agent with a metadata mapping whose keys collide with fields of the
  report.\<close>

definition overriding_agent :: agent where
  "overriding_agent =
     sample_agent\<lparr>metadata := JObj
       [(''hostname'', JStr ''bench-7''), (''status'', JStr ''offline''),
        (''agent_version'', JStr ''9.9.9''), (''location'', JStr ''bay 3'')]\<rparr>"

text \<open>Variations of the sample machine: the boot time cannot be read; the server answers
  401; the server is unreachable; connecting to the server times out; the server's
  answer times out; the configuration file lacks \<^verbatim>\<open>rig_id\<close>.\<close>

definition boot_failure_env :: env where
  "boot_failure_env = sample_env\<lparr>psutil_boot_time := Inl (OtherException ''RuntimeError'')\<rparr>"

definition unauthorized_env :: env where
  "unauthorized_env =
     sample_env\<lparr>requests_post :=
       (\<lambda>url body headers tmo. Inr \<lparr>status_code = 401, resp_text = ''denied''\<rparr>)\<rparr>"

definition unreachable_env :: env where
  "unreachable_env =
     sample_env\<lparr>requests_post := (\<lambda>url body headers tmo. Inl ConnectionError)\<rparr>"

definition connect_timeout_env :: env where
  "connect_timeout_env =
     sample_env\<lparr>requests_post := (\<lambda>url body headers tmo. Inl ConnectTimeout)\<rparr>"

definition read_timeout_env :: env where
  "read_timeout_env =
     sample_env\<lparr>requests_post := (\<lambda>url body headers tmo. Inl ReadTimeout)\<rparr>"

definition incomplete_env :: env where
  "incomplete_env =
     sample_env\<lparr>open_json_load :=
       Inr (JObj [(''server_url'', JStr ''http://x''), (''api_key'', JStr ''k'')])\<rparr>"

section \<open>Dictionaries\<close>

lemma dict_get_set:
  "dict_get (dict_set d k v) k' = (if k' = k then Some v else dict_get d k')"
  by (simp add: dict_get_def dict_set_def update_conv')

lemma dict_update_Cons:
  "dict_update d ((k0, v0) # other) = dict_update (dict_set d k0 v0) other"
  by (simp add: dict_update_def)

lemma dict_get_Cons:
  "dict_get ((k0, v0) # other) k = (if k = k0 then Some v0 else dict_get other k)"
  by (simp add: dict_get_def)

lemma dict_get_absent: "k \<notin> fst ` set d \<Longrightarrow> dict_get d k = None"
  by (simp add: dict_get_def map_of_eq_None_iff)

text \<open>Merging a well-formed dictionary: its bindings win, the others stay.\<close>

lemma dict_get_update_distinct:
  "distinct (map fst other) \<Longrightarrow>
   dict_get (dict_update d other) k =
     (case dict_get other k of Some v \<Rightarrow> Some v | None \<Rightarrow> dict_get d k)"
proof (induction other arbitrary: d)
  case Nil
  then show ?case by (simp add: dict_update_def dict_get_def)
next
  case (Cons kv other)
  obtain k0 v0 where kv: "kv = (k0, v0)" by (cases kv)
  from Cons.prems kv have d: "distinct (map fst other)" and nin: "k0 \<notin> fst ` set other"
    by auto
  from nin have none: "dict_get other k0 = None" by (rule dict_get_absent)
  show ?case
    using Cons.IH [OF d, of "dict_set d k0 v0"] none
    by (simp add: kv dict_update_Cons dict_get_Cons dict_get_set split: option.splits)
qed

lemma dict_get_update_absent:
  "k \<notin> fst ` set other \<Longrightarrow> dict_get (dict_update d other) k = dict_get d k"
proof (induction other arbitrary: d)
  case Nil
  then show ?case by (simp add: dict_update_def)
next
  case (Cons kv other)
  obtain k0 v0 where kv: "kv = (k0, v0)" by (cases kv)
  from Cons.prems kv have "k \<noteq> k0" and "k \<notin> fst ` set other" by auto
  then show ?case
    using Cons.IH [of "dict_set d k0 v0"] by (simp add: kv dict_update_Cons dict_get_set)
qed

section \<open>The process probe: the scan stops at the first member\<close>

lemma scan_processes_no_match:
  "\<forall>n. Name n \<in> set procs \<longrightarrow> name_value n \<notin> set names \<Longrightarrow>
   scan_processes (JArr names) procs = Return (False, None)"
proof (induction procs)
  case Nil
  then show ?case by simp
next
  case (Cons p procs)
  then show ?case by (cases p) auto
qed

lemma scan_processes_first_match:
  "\<forall>m. Name m \<in> set before \<longrightarrow> name_value m \<notin> set names \<Longrightarrow>
   name_value n \<in> set names \<Longrightarrow>
   scan_processes (JArr names) (before @ Name n # rest) = Return (True, n)"
proof (induction before)
  case Nil
  then show ?case by simp
next
  case (Cons p before)
  then show ?case by (cases p) auto
qed

section \<open>Floats: exact quotients and decimal rounding\<close>

lemma bit_length_lower: "0 < n \<Longrightarrow> 2 ^ (bit_length n - 1) \<le> n"
proof (induction n rule: bit_length.induct)
  case (1 n)
  show ?case
  proof (cases "n div 2 = 0")
    case True
    with "1.prems" show ?thesis
      by (simp add: bit_length.simps [of n] bit_length.simps [of 0])
  next
    case False
    then have pos: "0 < n div 2" by simp
    from "1.IH" "1.prems" pos have ih: "2 ^ (bit_length (n div 2) - 1) \<le> n div 2" by simp
    from pos have bl: "0 < bit_length (n div 2)"
      by (simp add: bit_length.simps [of "n div 2"])
    have "bit_length n = Suc (bit_length (n div 2))"
      using "1.prems" by (simp add: bit_length.simps [of n])
    then have "(2::nat) ^ (bit_length n - 1) = 2 * 2 ^ (bit_length (n div 2) - 1)"
      using bl by (cases "bit_length (n div 2)") simp_all
    also have "\<dots> \<le> 2 * (n div 2)" using ih by simp
    also have "\<dots> \<le> n" by simp
    finally show ?thesis .
  qed
qed

lemma floor_log2_less:
  assumes "0 < x" and "x < 2 ^ Suc k"
  shows "floor_log2 x \<le> int k"
proof (cases "1 \<le> x")
  case True
  define n where "n = nat \<lfloor>x\<rfloor>"
  from True have n: "0 < n" "rat_of_nat n \<le> x"
    by (simp_all add: n_def)
  have "rat_of_nat (2 ^ (bit_length n - 1)) \<le> rat_of_nat n"
    using bit_length_lower [OF n(1)] of_nat_le_iff by blast
  with n assms have "rat_of_nat (2 ^ (bit_length n - 1)) < 2 ^ Suc k" by linarith
  then have "(2::nat) ^ (bit_length n - 1) < 2 ^ Suc k"
    by (metis of_nat_less_iff of_nat_numeral of_nat_power)
  then have "bit_length n - 1 < Suc k"
    by (rule power_less_imp_less_exp [of 2, rotated]) simp
  then show ?thesis using True by (simp add: floor_log2_def n_def)
next
  case False
  then show ?thesis by (simp add: floor_log2_def)
qed

lemma round_half_even_of_int: "round_half_even (of_int z) = z"
  by (simp add: round_half_even_def)

lemma round_half_even_close: "\<bar>of_int (round_half_even x) - x\<bar> \<le> 1 / 2"
proof -
  have "of_int \<lfloor>x\<rfloor> \<le> x" "x < of_int \<lfloor>x\<rfloor> + 1" by linarith+
  then show ?thesis
    by (auto simp: round_half_even_def Let_def abs_le_iff)
qed

lemma binary64_exact_gb:
  assumes "0 \<le> b" and "b < 2 ^ 53"
  shows "binary64 (of_int b / 2 ^ 30) = of_int b / 2 ^ 30"
proof (cases "b = 0")
  case True
  then show ?thesis by (simp add: binary64_def)
next
  case False
  define x :: rat where "x = of_int b / 2 ^ 30"
  from False assms have xpos: "0 < x" by (simp add: x_def)
  have "of_int b < (2::rat) ^ 53" using assms(2)
    by (metis of_int_less_iff of_int_numeral of_int_power)
  then have "x < 2 ^ 53 / 2 ^ 30" by (simp add: x_def divide_strict_right_mono)
  then have xlt: "x < 2 ^ Suc 22" by simp
  define e where "e = max (floor_log2 x) (- 1022)"
  have e: "e \<le> 22" "- 1022 \<le> e"
    using floor_log2_less [OF xpos xlt] by (simp_all add: e_def)
  define j where "j = nat (22 - e)"
  have u: "(2::rat) powi (e - 52) = 1 / 2 ^ (30 + j)"
  proof -
    from e have "e - 52 = - int (30 + j)" by (simp add: j_def)
    then have "(2::rat) powi (e - 52) = 2 powi (- int (30 + j))" by (simp only:)
    then show ?thesis
      by (simp only: power_int_minus power_int_of_nat inverse_eq_divide)
  qed
  have q: "x / (2 powi (e - 52)) = of_int (b * 2 ^ j)"
    by (simp add: u x_def power_add)
  have "binary64 x = of_int (round_half_even (x / (2 powi (e - 52)))) * 2 powi (e - 52)"
    using xpos by (simp add: binary64_def Let_def e_def)
  also have "\<dots> = of_int (b * 2 ^ j) * 2 powi (e - 52)"
    by (simp only: q round_half_even_of_int)
  also have "\<dots> = of_int (b * 2 ^ j) * (1 / 2 ^ (30 + j))"
    by (simp only: u)
  also have "\<dots> = x" by (simp add: x_def power_add)
  finally show ?thesis by (simp add: x_def)
qed

lemma round_half_even_nonneg: "0 \<le> x \<Longrightarrow> 0 \<le> round_half_even x"
  by (auto simp: round_half_even_def Let_def)

lemma binary64_bounds:
  assumes "0 < x" and "x < 2 ^ Suc k" and "k \<le> 52"
  shows "0 \<le> binary64 x \<and> binary64 x \<le> x + 1 / 2"
proof -
  define e where "e = max (floor_log2 x) (- 1022)"
  define u :: rat where "u = 2 powi (e - 52)"
  have "e \<le> int k" using floor_log2_less [OF assms(1,2)] by (simp add: e_def)
  with assms(3) have "e - 52 \<le> 0" by simp
  then have "(2::rat) powi (e - 52) \<le> 2 powi 0"
    by (intro power_int_increasing) simp_all
  then have u1: "u \<le> 1" by (simp add: u_def)
  have u0: "0 < u" by (simp add: u_def)
  have b: "binary64 x = of_int (round_half_even (x / u)) * u"
    using assms(1) by (simp add: binary64_def Let_def e_def u_def)
  have "0 \<le> x / u" using assms(1) u0 by simp
  then have "0 \<le> round_half_even (x / u)" by (rule round_half_even_nonneg)
  then have lo: "0 \<le> binary64 x" using u0 by (simp add: b)
  have "of_int (round_half_even (x / u)) \<le> x / u + 1 / 2"
    using round_half_even_close [of "x / u"] by linarith
  then have "of_int (round_half_even (x / u)) * u \<le> (x / u + 1 / 2) * u"
    using u0 by (simp add: mult_right_mono)
  also have "\<dots> = x + u / 2" using u0 by (simp add: field_simps)
  also have "\<dots> \<le> x + 1 / 2" using u1 by simp
  finally show ?thesis using lo by (simp add: b)
qed

lemma int_truediv_gb64:
  assumes "0 \<le> b" and "b < 2 ^ 64"
  shows "int_truediv b (1024 ^ 3) = Inr (binary64 (of_int b / 1024 ^ 3))"
proof (cases "b = 0")
  case True
  then show ?thesis by (simp add: int_truediv_def binary64_def float_max_def)
next
  case False
  define x :: rat where "x = of_int b / 1024 ^ 3"
  from False assms have xpos: "0 < x" by (simp add: x_def)
  have "of_int b < (2::rat) ^ 64" using assms(2)
    by (metis of_int_less_iff of_int_numeral of_int_power)
  then have "x < 2 ^ 64 / 2 ^ 30" by (simp add: x_def divide_strict_right_mono)
  then have xlt: "x < 2 ^ Suc 33" by simp
  from binary64_bounds [OF xpos xlt] have "0 \<le> binary64 x" "binary64 x \<le> x + 1 / 2"
    by simp_all
  with xlt have "\<not> float_max < \<bar>binary64 x\<bar>" by (simp add: float_max_def)
  then show ?thesis by (simp add: int_truediv_def Let_def x_def)
qed

lemma py_round_nearest:
  "\<exists>k::int. py_round x n = binary64 (of_int k / 10 ^ n)
     \<and> \<bar>of_int k / 10 ^ n - x\<bar> \<le> 1 / (2 * 10 ^ n)"
proof -
  define k where "k = round_half_even (x * 10 ^ n)"
  have "\<bar>of_int k - x * 10 ^ n\<bar> \<le> 1 / 2"
    unfolding k_def by (rule round_half_even_close)
  then have "\<bar>of_int k - x * 10 ^ n\<bar> / 10 ^ n \<le> (1 / 2) / 10 ^ n"
    by (rule divide_right_mono) simp
  moreover have "\<bar>of_int k / 10 ^ n - x\<bar> = \<bar>(of_int k - x * 10 ^ n) / 10 ^ n\<bar>"
    by (simp add: diff_divide_distrib)
  moreover have "\<bar>(of_int k - x * 10 ^ n) / 10 ^ n\<bar> = \<bar>of_int k - x * 10 ^ n\<bar> / 10 ^ n"
    by (simp add: abs_divide)
  ultimately have "\<bar>of_int k / 10 ^ n - x\<bar> \<le> 1 / (2 * 10 ^ n)" by simp
  then show ?thesis by (auto simp: py_round_def k_def)
qed

lemma py_round_one_gib: "py_round (binary64 (1073741824 / 1024 ^ 3)) 2 = 1"
  by (simp add: py_round_def binary64_def floor_log2_def round_half_even_def
      bit_length.simps power_int_minus)

section \<open>Claims about the process probe\<close>

text \<open>
  Claim C5. Let the configured \<^verbatim>\<open>test_process_names\<close> be a list (the default is the
  empty list). If the list is empty, or if no name of the live process table is a
  member of it, \<^verbatim>\<open>check_test_running\<close> returns \<^verbatim>\<open>(False, None)\<close>: not active, no matched
  name. Entries that raise \<^verbatim>\<open>NoSuchProcess\<close> or \<^verbatim>\<open>AccessDenied\<close> are skipped.
\<close>

theorem check_test_running_no_match:
  assumes "dict_get_default cfg ''test_process_names'' (JArr []) = JArr names"
    and "names = [] \<or> (\<forall>n. Name n \<in> set procs \<longrightarrow> name_value n \<notin> set names)"
  shows "check_test_running cfg procs = Return (False, None)"
proof -
  from assms(2) have "\<forall>n. Name n \<in> set procs \<longrightarrow> name_value n \<notin> set names" by auto
  then show ?thesis
    using assms(1) by (simp add: check_test_running_def scan_processes_no_match)
qed

theorem check_test_running_no_match_witness:
  "check_test_running sample_config
     [Name (Some ''python.exe''), RaisesAccessDenied, Name None, Name (Some ''hil'')]
     = Return (False, None)
   \<and> check_test_running [] [Name (Some ''hil.exe'')] = Return (False, None)
   \<and> check_test_running [(''test_process_names'', JArr [])] [Name (Some ''hil.exe'')]
     = Return (False, None)"
proof -
  have "check_test_running sample_config
     [Name (Some ''python.exe''), RaisesAccessDenied, Name None, Name (Some ''hil'')]
     = Return (False, None)"
    by (rule check_test_running_no_match [where names = "[JStr ''hil.exe'']"])
       (simp_all add: sample_config_def dict_get_default_def dict_get_def)
  moreover have "check_test_running [] [Name (Some ''hil.exe'')] = Return (False, None)"
    by (rule check_test_running_no_match [where names = "[]"])
       (simp_all add: dict_get_default_def dict_get_def)
  moreover have "check_test_running [(''test_process_names'', JArr [])]
      [Name (Some ''hil.exe'')] = Return (False, None)"
    by (rule check_test_running_no_match [where names = "[]"])
       (simp_all add: dict_get_default_def dict_get_def)
  ultimately show ?thesis by simp
qed

text \<open>
  Claim C6. Let the configured \<^verbatim>\<open>test_process_names\<close> be a list. The scan returns at
  the first process whose name is a member of the list, with \<^verbatim>\<open>True\<close> and that name; so
  whenever some live name is a member, the result is active together with a live name
  that is a member. Membership is equality of the whole string: in the sample below
  neither the prefix \<^verbatim>\<open>hil\<close>, nor \<^verbatim>\<open>HIL.EXE\<close>, nor \<^verbatim>\<open>my-hil.exe\<close> matches the entry
  \<^verbatim>\<open>hil.exe\<close>.
\<close>

theorem check_test_running_first_match:
  assumes cfg: "dict_get_default cfg ''test_process_names'' (JArr []) = JArr names"
  shows "(\<forall>before n rest.
            procs = before @ Name n # rest \<and> name_value n \<in> set names
            \<and> (\<forall>m. Name m \<in> set before \<longrightarrow> name_value m \<notin> set names)
            \<longrightarrow> check_test_running cfg procs = Return (True, n))
       \<and> ((\<exists>n. Name n \<in> set procs \<and> name_value n \<in> set names)
            \<longrightarrow> (\<exists>n. check_test_running cfg procs = Return (True, n)
                      \<and> Name n \<in> set procs \<and> name_value n \<in> set names))"
proof -
  have first: "check_test_running cfg (before @ Name n # rest) = Return (True, n)"
    if "name_value n \<in> set names"
      and "\<forall>m. Name m \<in> set before \<longrightarrow> name_value m \<notin> set names"
    for before n rest
    using that cfg by (simp add: check_test_running_def scan_processes_first_match)
  have some: "\<exists>n. check_test_running cfg procs = Return (True, n)
                  \<and> Name n \<in> set procs \<and> name_value n \<in> set names"
    if "\<exists>n. Name n \<in> set procs \<and> name_value n \<in> set names"
  proof -
    from that have "\<exists>p \<in> set procs. \<exists>n. p = Name n \<and> name_value n \<in> set names"
      by auto
    then obtain before p rest where split: "procs = before @ p # rest"
      and p: "\<exists>n. p = Name n \<and> name_value n \<in> set names"
      and before: "\<forall>q \<in> set before. \<not> (\<exists>n. q = Name n \<and> name_value n \<in> set names)"
      by (auto simp: split_list_first_prop_iff)
    from p obtain n where n: "p = Name n" "name_value n \<in> set names" by auto
    from before have "\<forall>m. Name m \<in> set before \<longrightarrow> name_value m \<notin> set names" by auto
    from first [OF n(2) this, of rest] split n show ?thesis by auto
  qed
  from first some show ?thesis by blast
qed

theorem check_test_running_first_match_witness:
  "check_test_running sample_config
     [Name (Some ''hil''), Name (Some ''HIL.EXE''), RaisesNoSuchProcess,
      Name (Some ''my-hil.exe''), Name (Some ''hil.exe''), Name (Some ''other'')]
   = Return (True, Some ''hil.exe'')"
proof -
  have cfg: "dict_get_default sample_config ''test_process_names'' (JArr [])
      = JArr [JStr ''hil.exe'']"
    by (simp add: sample_config_def dict_get_default_def dict_get_def)
  show ?thesis
    by (rule check_test_running_first_match [OF cfg, THEN conjunct1, rule_format,
          where before = "[Name (Some ''hil''), Name (Some ''HIL.EXE''),
             RaisesNoSuchProcess, Name (Some ''my-hil.exe'')]"
            and rest = "[Name (Some ''other'')]"])
       auto
qed

section \<open>The composed report\<close>

lemma and_then_Inr:
  "and_then r f = Inr y \<longleftrightarrow> (\<exists>x. r = Inr x \<and> f x = Inr y)"
  by (cases r) (simp_all add: and_then_def)

lemma get_network_info_returns:
  "\<exists>d lg'. get_network_info os lg = (Return d, lg') \<and> map fst d = network_fields"
  by (simp add: get_network_info_def and_then_def network_fields_def split: sum.splits)

lemma system_status_display_keys:
  "system_status_display os boot = Inr d \<Longrightarrow> map fst d = snapshot_fields"
  by (auto simp: system_status_display_def and_then_Inr snapshot_fields_def)

lemma collect_system_status_cases:
  "collect_system_status os lg = (r, lg') \<Longrightarrow>
     (\<exists>e. psutil_boot_time os = Inl e \<and> r = Raise e \<and> lg' = lg)
   \<or> (\<exists>boot d. psutil_boot_time os = Inr boot \<and> system_status_display os boot = Inr d
          \<and> r = Return d \<and> lg' = lg)
   \<or> (\<exists>boot e. psutil_boot_time os = Inr boot \<and> system_status_display os boot = Inl e
          \<and> r = Return []
          \<and> lg' = lg @ [(ERROR, ''Error collecting system status'' @ newline @ str_exn os e)])"
  by (auto simp: collect_system_status_def split: sum.splits)

lemma collect_system_status_inside_try:
  "psutil_boot_time os = Inr boot \<Longrightarrow>
   \<exists>d lg'. collect_system_status os lg = (Return d, lg')
     \<and> (d = [] \<or> map fst d = snapshot_fields)"
  by (auto simp: collect_system_status_def system_status_display_keys split: sum.splits)

lemma collect_status_Return:
  assumes "collect_status self os lg = (Return report, lg')"
  shows "\<exists>is_testing test_name network_info system_status md.
           check_test_running (config self) (psutil_process_iter os)
             = Return (is_testing, test_name)
         \<and> map fst network_info = network_fields
         \<and> (system_status = [] \<or> map fst system_status = snapshot_fields)
         \<and> metadata self = JObj md
         \<and> report = status_display self os is_testing test_name
                       network_info system_status md"
proof -
  obtain ni lg1 where ni: "get_network_info os lg = (Return ni, lg1)"
    "map fst ni = network_fields"
    using get_network_info_returns by blast
  from assms ni obtain t n where tn:
    "check_test_running (config self) (psutil_process_iter os) = Return (t, n)"
    by (auto simp: collect_status_def split: result.splits)
  from assms ni tn obtain ss lg2 where ss: "collect_system_status os lg1 = (Return ss, lg2)"
    by (auto simp: collect_status_def split: result.splits prod.splits)
  from collect_system_status_cases [OF ss]
  have keys: "ss = [] \<or> map fst ss = snapshot_fields"
    by (auto simp: system_status_display_keys)
  from assms ni tn ss obtain md where md: "metadata self = JObj md"
    "report = status_display self os t n ni ss md"
    by (auto simp: collect_status_def unpack_mapping_def split: sum.splits json.splits)
  from tn ni(2) keys md show ?thesis by blast
qed

lemma collect_status_returns:
  assumes "check_test_running (config self) (psutil_process_iter os) = Return (t, n)"
    and "psutil_boot_time os = Inr boot"
    and "metadata self = JObj md"
  shows "\<exists>report lg'. collect_status self os lg = (Return report, lg')"
proof -
  obtain ni lg1 where ni: "get_network_info os lg = (Return ni, lg1)"
    using get_network_info_returns by blast
  obtain ss lg2 where ss: "collect_system_status os lg1 = (Return ss, lg2)"
    using collect_system_status_inside_try [OF assms(2)] by blast
  show ?thesis
    by (simp add: collect_status_def assms ni ss unpack_mapping_def)
qed

lemma status_display_fixed:
  "dict_get (status_display self os t n ni ss md) ''agent_version'' = Some (JStr ''1.0.0'')"
  "dict_get (status_display self os t n ni ss md) ''os'' = Some (JStr (platform_platform os))"
  by (simp_all add: status_display_def dict_get_set)

lemma status_display_metadata:
  assumes "distinct (map fst md)" and "dict_get md k = Some v"
    and "k \<noteq> ''agent_version''" and "k \<noteq> ''os''"
  shows "dict_get (status_display self os t n ni ss md) k = Some v"
  using assms by (simp add: status_display_def dict_get_set dict_get_update_distinct)

lemma dict_get_Nil: "dict_get [] k = None"
  by (simp add: dict_get_def)

lemma status_display_eq:
  "status_display self os t n ni ss md =
     dict_set (dict_set
       (dict_update (dict_update (dict_update
          [(''rig_id'', rig_id self),
           (''timestamp'', JStr (utc_isoformat_status os)),
           (''status'', JStr (if t then ''busy'' else ''available'')),
           (''is_testing'', JBool t),
           (''test_name'', name_value n)]
          ni) ss) md)
       ''agent_version'' (JStr ''1.0.0''))
       ''os'' (JStr (platform_platform os))"
  by (simp add: status_display_def dict_set_def)

lemma status_display_untouched:
  assumes "map fst ni = network_fields"
    and "ss = [] \<or> map fst ss = snapshot_fields"
    and "dict_get md k = None"
    and "k \<in> set (identity_fields @ status_fields)"
  shows "dict_get (status_display self os t n ni ss md) k =
         dict_get [(''rig_id'', rig_id self),
                   (''timestamp'', JStr (utc_isoformat_status os)),
                   (''status'', JStr (if t then ''busy'' else ''available'')),
                   (''is_testing'', JBool t),
                   (''test_name'', name_value n)] k"
proof -
  from assms(4) have "k = ''rig_id'' \<or> k = ''timestamp'' \<or> k = ''status''
      \<or> k = ''is_testing'' \<or> k = ''test_name''"
    by (simp add: identity_fields_def status_fields_def)
  then have k: "k \<notin> set network_fields" "k \<notin> set snapshot_fields"
    "k \<noteq> ''agent_version''" "k \<noteq> ''os''"
    by (elim disjE; simp add: network_fields_def snapshot_fields_def)+
  from assms(3) have md: "k \<notin> fst ` set md"
    by (simp add: dict_get_def map_of_eq_None_iff)
  have "fst ` set ni = set network_fields"
    unfolding assms(1) [symmetric] by simp
  with k(1) have ni: "k \<notin> fst ` set ni" by simp
  have ss: "k \<notin> fst ` set ss"
  proof (cases "ss = []")
    case True
    then show ?thesis by simp
  next
    case False
    with assms(2) have "fst ` set ss = set snapshot_fields"
      by (metis set_map)
    with k(2) show ?thesis by simp
  qed
  show ?thesis
    using k(3,4)
    by (simp only: status_display_eq dict_get_set dict_get_update_absent [OF md]
        dict_get_update_absent [OF ss] dict_get_update_absent [OF ni] if_False)
qed

lemma collect_status_Return_with:
  assumes run: "collect_status self os lg = (Return report, lg')"
    and md: "metadata self = JObj md"
    and tn: "check_test_running (config self) (psutil_process_iter os) = Return (t, n)"
  shows "\<exists>ni ss. map fst ni = network_fields
           \<and> (ss = [] \<or> map fst ss = snapshot_fields)
           \<and> report = status_display self os t n ni ss md"
proof -
  from collect_status_Return [OF run]
  obtain t' n' ni ss md' where
    tn': "check_test_running (config self) (psutil_process_iter os) = Return (t', n')"
    and ni: "map fst ni = network_fields"
    and ss: "ss = [] \<or> map fst ss = snapshot_fields"
    and md': "metadata self = JObj md'"
    and report: "report = status_display self os t' n' ni ss md'"
    by blast
  from tn tn' have "t' = t" "n' = n" by simp_all
  moreover from md md' have "md' = md" by simp
  ultimately show ?thesis using ni ss report by blast
qed

lemma collect_status_label:
  assumes "collect_status self os lg = (Return report, lg')"
    and "metadata self = JObj md"
    and "dict_get md ''status'' = None"
    and "dict_get md ''is_testing'' = None"
  shows "\<exists>t n. check_test_running (config self) (psutil_process_iter os) = Return (t, n)
           \<and> dict_get report ''is_testing'' = Some (JBool t)
           \<and> dict_get report ''status'' = Some (JStr (if t then ''busy'' else ''available''))"
proof -
  from collect_status_Return [OF assms(1)] assms(2)
  obtain t n ni ss where
    tn: "check_test_running (config self) (psutil_process_iter os) = Return (t, n)"
    and ni: "map fst ni = network_fields"
    and ss: "ss = [] \<or> map fst ss = snapshot_fields"
    and report: "report = status_display self os t n ni ss md"
    by auto
  have "dict_get report ''is_testing'' = Some (JBool t)"
    unfolding report
    by (subst status_display_untouched [OF ni ss assms(4)])
       (simp_all add: status_fields_def dict_get_Cons)
  moreover have "dict_get report ''status'' = Some (JStr (if t then ''busy'' else ''available''))"
    unfolding report
    by (subst status_display_untouched [OF ni ss assms(3)])
       (simp_all add: status_fields_def dict_get_Cons)
  ultimately show ?thesis using tn by blast
qed

lemma overriding_agent_returns:
  "\<exists>report lg'. collect_status overriding_agent sample_env [] = (Return report, lg')"
  by (rule collect_status_returns [where t = False and n = None and boot = 0])
     (simp_all add: overriding_agent_def sample_agent_def sample_env_def sample_config_def
        check_test_running_def dict_get_default_def dict_get_def)

lemma sample_agent_returns:
  "\<exists>report lg'. collect_status sample_agent sample_env [] = (Return report, lg')"
  by (rule collect_status_returns [where t = False and n = None and boot = 0])
     (simp_all add: sample_agent_def sample_env_def sample_config_def
        check_test_running_def dict_get_default_def dict_get_def)

section \<open>Claims about the composed report\<close>

text \<open>
  Claim C1. Whenever \<^verbatim>\<open>collect_status\<close> returns a report and the metadata mapping binds a
  key that is one of the built-in fields written before it (the rig's identity, the
  status fields, the fields of the network probe, the fields of the system snapshot),
  the report holds the metadata's value under that key: the display merges the network
  information, then the system snapshot, then the metadata, and the later item wins.
  (The two keys written after the metadata are the subject of claim C9.)
\<close>

theorem metadata_overrides_builtin_fields:
  assumes "collect_status self os lg = (Return report, lg')"
    and "metadata self = JObj md"
    and "distinct (map fst md)"
    and "dict_get md k = Some v"
    and "k \<in> set (identity_fields @ status_fields @ network_fields @ snapshot_fields)"
  shows "dict_get report k = Some v"
proof -
  from collect_status_Return [OF assms(1)] assms(2)
  obtain t n ni ss where "report = status_display self os t n ni ss md"
    by auto
  moreover from assms(5) have "k \<noteq> ''agent_version''" "k \<noteq> ''os''"
    by (auto simp: identity_fields_def status_fields_def network_fields_def
        snapshot_fields_def)
  ultimately show ?thesis
    using status_display_metadata [OF assms(3) assms(4)] by simp
qed

theorem metadata_overrides_builtin_fields_witness:
  "(case fst (collect_status overriding_agent sample_env []) of
      Return report \<Rightarrow>
        dict_get report ''hostname'' = Some (JStr ''bench-7'')
        \<and> dict_get report ''status'' = Some (JStr ''offline'')
    | _ \<Rightarrow> False)"
proof -
  obtain report lg' where run:
    "collect_status overriding_agent sample_env [] = (Return report, lg')"
    using overriding_agent_returns by blast
  have md: "metadata overriding_agent = JObj
       [(''hostname'', JStr ''bench-7''), (''status'', JStr ''offline''),
        (''agent_version'', JStr ''9.9.9''), (''location'', JStr ''bay 3'')]"
    by (simp add: overriding_agent_def)
  have "dict_get report ''hostname'' = Some (JStr ''bench-7'')"
    by (rule metadata_overrides_builtin_fields [OF run md])
       (simp_all add: dict_get_def network_fields_def)
  moreover have "dict_get report ''status'' = Some (JStr ''offline'')"
    by (rule metadata_overrides_builtin_fields [OF run md])
       (simp_all add: dict_get_def status_fields_def)
  ultimately show ?thesis by (simp add: run)
qed

text \<open>
  Claim C4, as stated: in every composed report the label under \<^verbatim>\<open>status\<close> is
  \<^verbatim>\<open>busy\<close> exactly when \<^verbatim>\<open>is_testing\<close> is true and \<^verbatim>\<open>available\<close> exactly when it is
  false. This fails when the metadata binds \<^verbatim>\<open>status\<close>: with no workload process
  running and the metadata entry \<^verbatim>\<open>status: offline\<close>, the report has \<^verbatim>\<open>is_testing\<close>
  false and the label \<^verbatim>\<open>offline\<close>.
\<close>

theorem status_label_overridden_counterexample:
  "(case fst (collect_status overriding_agent sample_env []) of
      Return report \<Rightarrow>
        dict_get report ''is_testing'' = Some (JBool False)
        \<and> dict_get report ''status'' = Some (JStr ''offline'')
        \<and> dict_get report ''status'' \<noteq> Some (JStr ''available'')
    | _ \<Rightarrow> False)"
proof -
  obtain report lg' where run:
    "collect_status overriding_agent sample_env [] = (Return report, lg')"
    using overriding_agent_returns by blast
  have md: "metadata overriding_agent = JObj
       [(''hostname'', JStr ''bench-7''), (''status'', JStr ''offline''),
        (''agent_version'', JStr ''9.9.9''), (''location'', JStr ''bay 3'')]"
    by (simp add: overriding_agent_def)
  have tn: "check_test_running (config overriding_agent) (psutil_process_iter sample_env)
      = Return (False, None)"
    by (simp add: overriding_agent_def sample_agent_def sample_env_def sample_config_def
        check_test_running_def dict_get_default_def dict_get_def)
  from collect_status_Return_with [OF run md tn]
  obtain ni ss where ni: "map fst ni = network_fields"
    and ss: "ss = [] \<or> map fst ss = snapshot_fields"
    and report: "report = status_display overriding_agent sample_env False None ni ss
       [(''hostname'', JStr ''bench-7''), (''status'', JStr ''offline''),
        (''agent_version'', JStr ''9.9.9''), (''location'', JStr ''bay 3'')]"
    by blast
  have "dict_get report ''is_testing'' = Some (JBool False)"
    unfolding report
    by (subst status_display_untouched [OF ni ss])
       (simp_all add: status_fields_def dict_get_Cons dict_get_Nil)
  moreover have "dict_get report ''status'' = Some (JStr ''offline'')"
    unfolding report
    by (rule status_display_metadata) (simp_all add: dict_get_Cons)
  ultimately show ?thesis by (simp add: run)
qed

text \<open>
  Claim C4, amended: in every composed report whose metadata binds neither
  \<^verbatim>\<open>status\<close> nor \<^verbatim>\<open>is_testing\<close>, the field \<^verbatim>\<open>is_testing\<close> is a boolean, the label is
  \<^verbatim>\<open>busy\<close> if and only if \<^verbatim>\<open>is_testing\<close> is true, and \<^verbatim>\<open>available\<close> if and only if it
  is false.
\<close>

theorem status_label_two_way:
  assumes "collect_status self os lg = (Return report, lg')"
    and "metadata self = JObj md"
    and "dict_get md ''status'' = None"
    and "dict_get md ''is_testing'' = None"
  shows "(dict_get report ''is_testing'' = Some (JBool True)
            \<or> dict_get report ''is_testing'' = Some (JBool False))
       \<and> (dict_get report ''status'' = Some (JStr ''busy'')
            \<longleftrightarrow> dict_get report ''is_testing'' = Some (JBool True))
       \<and> (dict_get report ''status'' = Some (JStr ''available'')
            \<longleftrightarrow> dict_get report ''is_testing'' = Some (JBool False))"
proof -
  from collect_status_label [OF assms]
  obtain t where "dict_get report ''is_testing'' = Some (JBool t)"
    and "dict_get report ''status'' = Some (JStr (if t then ''busy'' else ''available''))"
    by blast
  then show ?thesis by (cases t) simp_all
qed

theorem status_label_two_way_witness:
  "(case fst (collect_status sample_agent sample_env []) of
      Return report \<Rightarrow>
        dict_get report ''status'' = Some (JStr ''available'')
        \<and> dict_get report ''is_testing'' = Some (JBool False)
    | _ \<Rightarrow> False)"
proof -
  obtain report lg' where run:
    "collect_status sample_agent sample_env [] = (Return report, lg')"
    using sample_agent_returns by blast
  have md: "metadata sample_agent = JObj []" by (simp add: sample_agent_def)
  have none: "dict_get [] ''status'' = None" "dict_get [] ''is_testing'' = None"
    by (simp_all add: dict_get_def)
  have tn: "check_test_running (config sample_agent) (psutil_process_iter sample_env)
      = Return (False, None)"
    by (simp add: sample_agent_def sample_env_def sample_config_def
        check_test_running_def dict_get_default_def dict_get_def)
  from collect_status_label [OF run md none] tn
  have f: "dict_get report ''is_testing'' = Some (JBool False)" by auto
  from status_label_two_way [OF run md none] f
  have "dict_get report ''status'' = Some (JStr ''available'')" by simp
  with f show ?thesis by (simp add: run)
qed

text \<open>
  Claim C9. Every report that \<^verbatim>\<open>collect_status\<close> returns has \<^verbatim>\<open>agent_version\<close> bound
  to \<^verbatim>\<open>1.0.0\<close> and \<^verbatim>\<open>os\<close> bound to the platform string, whatever the metadata and
  the probes say: both keys are written after the metadata is merged. In the sample the
  metadata binds \<^verbatim>\<open>agent_version\<close> to \<^verbatim>\<open>9.9.9\<close> and the report still says \<^verbatim>\<open>1.0.0\<close>.
\<close>

theorem version_and_os_not_overridable:
  assumes "collect_status self os lg = (Return report, lg')"
  shows "dict_get report ''agent_version'' = Some (JStr ''1.0.0'')
       \<and> dict_get report ''os'' = Some (JStr (platform_platform os))"
  using collect_status_Return [OF assms] by (auto simp: status_display_fixed)

theorem version_and_os_not_overridable_witness:
  "dict_get [(''hostname'', JStr ''bench-7''), (''status'', JStr ''offline''),
             (''agent_version'', JStr ''9.9.9''), (''location'', JStr ''bay 3'')]
     ''agent_version'' = Some (JStr ''9.9.9'')
   \<and> (case fst (collect_status overriding_agent sample_env []) of
      Return report \<Rightarrow>
        dict_get report ''agent_version'' = Some (JStr ''1.0.0'')
        \<and> dict_get report ''os'' = Some (JStr ''Windows-10'')
    | _ \<Rightarrow> False)"
proof -
  obtain report lg' where run:
    "collect_status overriding_agent sample_env [] = (Return report, lg')"
    using overriding_agent_returns by blast
  have os: "platform_platform sample_env = ''Windows-10''"
    by (simp add: sample_env_def)
  have md: "dict_get [(''hostname'', JStr ''bench-7''), (''status'', JStr ''offline''),
             (''agent_version'', JStr ''9.9.9''), (''location'', JStr ''bay 3'')]
     ''agent_version'' = Some (JStr ''9.9.9'')"
    by (simp add: dict_get_def)
  from version_and_os_not_overridable [OF run] os md show ?thesis
    by (simp add: run)
qed

section \<open>The system snapshot\<close>

lemma sample_init:
  "open_json_load os = Inr (JObj sample_config) \<Longrightarrow>
   RigAgent_init os lg = (Return sample_agent, lg)"
  by (simp add: RigAgent_init_def load_config_def getitem_def and_then_def
      sample_config_def sample_agent_def dict_get_def dict_get_default_def)

lemma system_status_display_value:
  assumes "psutil_cpu_percent os = Inr cpu"
    and "psutil_virtual_memory_1 os = Inr vm1"
    and "psutil_virtual_memory_2 os = Inr vm2"
    and "psutil_virtual_memory_3 os = Inr vm3"
    and "psutil_disk_usage_1 os = Inr du1"
    and "psutil_disk_usage_2 os = Inr du2"
    and "0 \<le> vm_used vm2" and "vm_used vm2 < 2 ^ 64"
    and "0 \<le> vm_total vm3" and "vm_total vm3 < 2 ^ 64"
    and "0 \<le> du_free du2" and "du_free du2 < 2 ^ 64"
  shows "system_status_display os boot =
     Inr [(''cpu_percent'', JFloat cpu),
          (''memory_percent'', JFloat (vm_percent vm1)),
          (''memory_used_gb'', JFloat (py_round (binary64 (of_int (vm_used vm2) / 1024 ^ 3)) 2)),
          (''memory_total_gb'', JFloat (py_round (binary64 (of_int (vm_total vm3) / 1024 ^ 3)) 2)),
          (''disk_percent'', JFloat (du_percent du1)),
          (''disk_free_gb'', JFloat (py_round (binary64 (of_int (du_free du2) / 1024 ^ 3)) 2)),
          (''uptime_hours'',
             JFloat (py_round
               (binary64 (binary64 (of_int (datetime_now os - boot) / 1000000) / 3600)) 1))]"
proof -
  note gb = int_truediv_gb64 [OF assms(7,8), simplified]
    int_truediv_gb64 [OF assms(9,10), simplified]
    int_truediv_gb64 [OF assms(11,12), simplified]
  show ?thesis
    by (simp add: system_status_display_def assms(1-6) and_then_def gb
        float_div_def total_seconds_def)
qed

lemma sample_roundings:
  "py_round (binary64 (of_int (vm_used sample_vmem) / 1024 ^ 3)) 2 = 1"
  "py_round (binary64 (of_int (vm_total sample_vmem) / 1024 ^ 3)) 2 = 2"
  "py_round (binary64 (of_int (du_free sample_dusage) / 1024 ^ 3)) 2 = binary64 (12 / 100)"
  "py_round (binary64 (binary64 (of_int (datetime_now sample_env - 0) / 1000000) / 3600)) 1
     = binary64 (1 / 10)"
  by code_simp+

text \<open>
  Claim C2 says that no failure of an operating-system query, the boot-time query
  included, leaves \<^verbatim>\<open>collect_system_status\<close>: the call returns an empty snapshot and logs
  the error. The queries inside the \<^verbatim>\<open>try\<close> behave so (lemma
  \<open>collect_system_status_inside_try\<close>), but the boot time is read on the line before
  the \<^verbatim>\<open>try\<close>. On the machine whose boot-time query raises, the exception leaves
  \<^verbatim>\<open>collect_system_status\<close> with nothing logged there, and the run ends in
  \<^verbatim>\<open>sys.exit(1)\<close> without a heartbeat.
\<close>

theorem boot_time_failure_leaves_collect_system_status:
  "collect_system_status boot_failure_env [] = (Raise (OtherException ''RuntimeError''), [])
   \<and> main boot_failure_env =
       (Exited 1,
        module_log @ [(INFO, ''HIL Agent Run at 2025-01-01T00:00:00+00:00''),
                      (ERROR, ''Error in agent run'' @ newline @ ''<exception>'')])"
proof -
  have boot: "psutil_boot_time boot_failure_env = Inl (OtherException ''RuntimeError'')"
    by (simp add: boot_failure_env_def)
  have css: "collect_system_status boot_failure_env lg = (Raise (OtherException ''RuntimeError''), lg)"
    for lg
    by (simp add: collect_system_status_def boot)
  have init: "RigAgent_init boot_failure_env module_log = (Return sample_agent, module_log)"
    by (rule sample_init) (simp add: boot_failure_env_def sample_env_def)
  have tn: "check_test_running (config sample_agent) (psutil_process_iter boot_failure_env)
      = Return (False, None)"
    by (simp add: boot_failure_env_def sample_agent_def sample_env_def sample_config_def
        check_test_running_def dict_get_default_def dict_get_def)
  obtain ni where ni: "get_network_info boot_failure_env lg = (Return ni, lg)" for lg
    by (simp add: get_network_info_def and_then_def boot_failure_env_def sample_env_def)
  have cs: "collect_status sample_agent boot_failure_env lg
      = (Raise (OtherException ''RuntimeError''), lg)" for lg
    by (simp add: collect_status_def tn ni css)
  have "main boot_failure_env =
       (Exited 1,
        module_log @ [(INFO, ''HIL Agent Run at '' @ utc_isoformat_run boot_failure_env),
                      (ERROR, ''Error in agent run'' @ newline
                         @ str_exn boot_failure_env (OtherException ''RuntimeError''))])"
    by (simp add: main_def init run_def cs)
  moreover have "utc_isoformat_run boot_failure_env = ''2025-01-01T00:00:00+00:00''"
    and "str_exn boot_failure_env (OtherException ''RuntimeError'') = ''<exception>''"
    by (simp_all add: boot_failure_env_def sample_env_def)
  ultimately show ?thesis by (simp add: css)
qed

text \<open>
  Claim C7. When every query succeeds and the byte counts are those of 64-bit counters,
  the snapshot's three byte-based fields are the byte count divided by \<open>1024^3\<close> and
  rounded to 2 decimal places, and \<^verbatim>\<open>uptime_hours\<close> is the microseconds between now and
  the boot time, as seconds, divided by 3600 and rounded to 1 decimal place; each step
  is the float operation of Python. Rounding to \<open>n\<close> places yields the float nearest to
  a decimal with \<open>n\<close> places that is within half a unit of the last place of the
  argument. Below \<open>2^53\<close> bytes the division is exact, and 1073741824 bytes become
  exactly 1.
\<close>

theorem byte_metrics_and_uptime_rounding:
  assumes "psutil_boot_time os = Inr boot"
    and "psutil_cpu_percent os = Inr cpu"
    and "psutil_virtual_memory_1 os = Inr vm1"
    and "psutil_virtual_memory_2 os = Inr vm2"
    and "psutil_virtual_memory_3 os = Inr vm3"
    and "psutil_disk_usage_1 os = Inr du1"
    and "psutil_disk_usage_2 os = Inr du2"
    and "0 \<le> vm_used vm2" and "vm_used vm2 < 2 ^ 64"
    and "0 \<le> vm_total vm3" and "vm_total vm3 < 2 ^ 64"
    and "0 \<le> du_free du2" and "du_free du2 < 2 ^ 64"
  shows "(\<exists>snapshot. collect_system_status os lg = (Return snapshot, lg)
          \<and> dict_get snapshot ''memory_used_gb''
              = Some (JFloat (py_round (binary64 (of_int (vm_used vm2) / 1024 ^ 3)) 2))
          \<and> dict_get snapshot ''memory_total_gb''
              = Some (JFloat (py_round (binary64 (of_int (vm_total vm3) / 1024 ^ 3)) 2))
          \<and> dict_get snapshot ''disk_free_gb''
              = Some (JFloat (py_round (binary64 (of_int (du_free du2) / 1024 ^ 3)) 2))
          \<and> dict_get snapshot ''uptime_hours''
              = Some (JFloat (py_round
                  (binary64 (binary64 (of_int (datetime_now os - boot) / 1000000) / 3600)) 1)))
       \<and> (\<forall>x n. \<exists>k::int. py_round x n = binary64 (of_int k / 10 ^ n)
                        \<and> \<bar>of_int k / 10 ^ n - x\<bar> \<le> 1 / (2 * 10 ^ n))
       \<and> (\<forall>b. 0 \<le> b \<and> b < 2 ^ 53
              \<longrightarrow> binary64 (of_int b / 1024 ^ 3) = of_int b / 1024 ^ 3)
       \<and> py_round (binary64 (1073741824 / 1024 ^ 3)) 2 = 1"
proof (intro conjI allI impI)
  show "\<exists>snapshot. collect_system_status os lg = (Return snapshot, lg)
          \<and> dict_get snapshot ''memory_used_gb''
              = Some (JFloat (py_round (binary64 (of_int (vm_used vm2) / 1024 ^ 3)) 2))
          \<and> dict_get snapshot ''memory_total_gb''
              = Some (JFloat (py_round (binary64 (of_int (vm_total vm3) / 1024 ^ 3)) 2))
          \<and> dict_get snapshot ''disk_free_gb''
              = Some (JFloat (py_round (binary64 (of_int (du_free du2) / 1024 ^ 3)) 2))
          \<and> dict_get snapshot ''uptime_hours''
              = Some (JFloat (py_round
                  (binary64 (binary64 (of_int (datetime_now os - boot) / 1000000) / 3600)) 1))"
    unfolding collect_system_status_def assms(1)
      system_status_display_value [OF assms(2-13)]
    by (simp add: dict_get_Cons)
  show "\<exists>k::int. py_round x n = binary64 (of_int k / 10 ^ n)
                        \<and> \<bar>of_int k / 10 ^ n - x\<bar> \<le> 1 / (2 * 10 ^ n)" for x n
    by (rule py_round_nearest)
  show "binary64 (of_int b / 1024 ^ 3) = of_int b / 1024 ^ 3"
    if "0 \<le> b \<and> b < 2 ^ 53" for b
    using binary64_exact_gb [of b] that by simp
  show "py_round (binary64 (1073741824 / 1024 ^ 3)) 2 = 1"
    by (rule py_round_one_gib)
qed

theorem byte_metrics_and_uptime_rounding_witness:
  "(case fst (collect_system_status sample_env []) of
      Return snapshot \<Rightarrow>
        dict_get snapshot ''memory_used_gb'' = Some (JFloat 1)
        \<and> dict_get snapshot ''memory_total_gb'' = Some (JFloat 2)
        \<and> dict_get snapshot ''disk_free_gb'' = Some (JFloat (binary64 (12 / 100)))
        \<and> dict_get snapshot ''uptime_hours'' = Some (JFloat (binary64 (1 / 10)))
    | _ \<Rightarrow> False)"
proof -
  have "\<exists>snapshot. collect_system_status sample_env [] = (Return snapshot, [])
          \<and> dict_get snapshot ''memory_used_gb''
              = Some (JFloat (py_round (binary64 (of_int (vm_used sample_vmem) / 1024 ^ 3)) 2))
          \<and> dict_get snapshot ''memory_total_gb''
              = Some (JFloat (py_round (binary64 (of_int (vm_total sample_vmem) / 1024 ^ 3)) 2))
          \<and> dict_get snapshot ''disk_free_gb''
              = Some (JFloat (py_round (binary64 (of_int (du_free sample_dusage) / 1024 ^ 3)) 2))
          \<and> dict_get snapshot ''uptime_hours''
              = Some (JFloat (py_round
                  (binary64 (binary64 (of_int (datetime_now sample_env - 0) / 1000000) / 3600)) 1))"
    by (rule byte_metrics_and_uptime_rounding
          [where cpu = "25 / 2" and ?vm1.0 = sample_vmem and ?du1.0 = sample_dusage,
           THEN conjunct1])
       (simp_all add: sample_env_def sample_vmem_def sample_dusage_def)
  then obtain snapshot where "collect_system_status sample_env [] = (Return snapshot, [])"
    and "dict_get snapshot ''memory_used_gb'' = Some (JFloat 1)"
    and "dict_get snapshot ''memory_total_gb'' = Some (JFloat 2)"
    and "dict_get snapshot ''disk_free_gb'' = Some (JFloat (binary64 (12 / 100)))"
    and "dict_get snapshot ''uptime_hours'' = Some (JFloat (binary64 (1 / 10)))"
    unfolding sample_roundings by blast
  then show ?thesis by simp
qed

section \<open>Transmission and the run\<close>

lemma send_heartbeat_returns:
  "\<exists>b lg'. send_heartbeat self os status lg = (Return b, lg')"
  by (cases "requests_post os (heartbeat_url self os) status (heartbeat_headers self os) 15")
     (auto simp: send_heartbeat_def)

lemma send_heartbeat_True_iff:
  "fst (send_heartbeat self os status lg) = Return True \<longleftrightarrow>
   (\<exists>r. requests_post os (heartbeat_url self os) status (heartbeat_headers self os) 15 = Inr r
        \<and> status_code r = 200)"
  by (auto simp: send_heartbeat_def split: sum.splits)

lemma run_after_collect_status:
  assumes "collect_status self os (lg @ [(INFO, ''HIL Agent Run at '' @ utc_isoformat_run os)])
             = (Return status, lg1)"
  shows "run self os lg = (Return (), snd (send_heartbeat self os status lg1))"
proof -
  obtain b lg2 where "send_heartbeat self os status lg1 = (Return b, lg2)"
    using send_heartbeat_returns by blast
  with assms show ?thesis by (simp add: run_def)
qed

lemma load_config_failure:
  "open_json_load os = Inl e \<Longrightarrow>
   (\<exists>lg'. load_config os lg = (SysExit 1, lg')) \<or> load_config os lg = (Raise e, lg)"
  by (cases e) (simp_all add: load_config_def)

text \<open>The decimal text of an int determines the int and contains no colon.\<close>

lemma digit_char_mem: "d < 10 \<Longrightarrow> digit_char d \<in> set ''0123456789''"
  unfolding digit_char_def by (rule nth_mem) simp

lemma digit_char_inj:
  assumes "d < 10" and "d' < 10" and "digit_char d = digit_char d'"
  shows "d = d'"
proof -
  have "distinct ''0123456789''" by simp
  from nth_eq_iff_index_eq [OF this, of d d'] assms show ?thesis
    by (simp add: digit_char_def)
qed

lemma str_nat_nonempty: "str_nat n \<noteq> []"
  by (subst str_nat.simps) simp

lemma str_nat_chars: "set (str_nat n) \<subseteq> set ''0123456789''"
proof (induction n rule: str_nat.induct)
  case (1 n)
  show ?case
  proof (cases "n < 10")
    case True
    then show ?thesis
      using digit_char_mem [of n] by (subst str_nat.simps) simp
  next
    case False
    have "n mod 10 < 10" by simp
    from digit_char_mem [OF this] "1.IH" [OF False] False show ?thesis
      by (subst str_nat.simps) simp
  qed
qed

lemma div_mod_eq_imp:
  assumes "(m::nat) div 10 = n div 10" and "m mod 10 = n mod 10"
  shows "m = n"
proof -
  have "m = 10 * (m div 10) + m mod 10" by simp
  also have "\<dots> = 10 * (n div 10) + n mod 10" by (simp only: assms)
  also have "\<dots> = n" by simp
  finally show ?thesis .
qed

lemma str_nat_inj: "str_nat m = str_nat n \<Longrightarrow> m = n"
proof (induction m arbitrary: n rule: str_nat.induct)
  case (1 m)
  have dm: "m mod 10 < 10" and dn: "n mod 10 < 10" by simp_all
  show ?case
  proof (cases "m < 10")
    case m: True
    show ?thesis
    proof (cases "n < 10")
      case True
      with m "1.prems" have "digit_char m = digit_char n"
        by (simp add: str_nat.simps [of m] str_nat.simps [of n])
      with m True show ?thesis by (rule digit_char_inj)
    next
      case False
      with m "1.prems" str_nat_nonempty [of "n div 10"] show ?thesis
        by (simp add: str_nat.simps [of m] str_nat.simps [of n])
    qed
  next
    case m: False
    show ?thesis
    proof (cases "n < 10")
      case True
      with m "1.prems" str_nat_nonempty [of "m div 10"] show ?thesis
        by (simp add: str_nat.simps [of m] str_nat.simps [of n])
    next
      case False
      with m "1.prems" have eq: "str_nat (m div 10) = str_nat (n div 10)"
        and d: "digit_char (m mod 10) = digit_char (n mod 10)"
        by (simp_all add: str_nat.simps [of m] str_nat.simps [of n])
      from "1.IH" [OF m eq] have "m div 10 = n div 10" .
      moreover from digit_char_inj [OF dm dn d] have "m mod 10 = n mod 10" .
      ultimately show ?thesis by (rule div_mod_eq_imp)
    qed
  qed
qed

lemma no_digit: "CHR ''-'' \<notin> set ''0123456789''" "CHR '':'' \<notin> set ''0123456789''"
  by simp_all

lemma str_nat_no_dash: "CHR ''-'' \<notin> set (str_nat k)"
  using str_nat_chars [of k] no_digit(1) by (rule contra_subsetD)

lemma str_nat_no_colon: "CHR '':'' \<notin> set (str_nat k)"
  using str_nat_chars [of k] no_digit(2) by (rule contra_subsetD)

lemma str_int_no_colon: "CHR '':'' \<notin> set (str_int i)"
  by (simp add: str_int_def str_nat_no_colon)

lemma str_nat_hd: "hd (str_nat k) \<noteq> CHR ''-''"
proof -
  have "hd (str_nat k) \<in> set (str_nat k)" using str_nat_nonempty by simp
  with str_nat_no_dash [of k] show ?thesis by metis
qed

lemma str_int_inj: "str_int a = str_int b \<Longrightarrow> a = b"
proof -
  assume eq: "str_int a = str_int b"
  show ?thesis
  proof (cases "a < 0")
    case a: True
    show ?thesis
    proof (cases "b < 0")
      case True
      with a eq have "str_nat (nat (- a)) = str_nat (nat (- b))" by (simp add: str_int_def)
      then have "nat (- a) = nat (- b)" by (rule str_nat_inj)
      with a True show ?thesis by simp
    next
      case False
      with a eq have "CHR ''-'' # str_nat (nat (- a)) = str_nat (nat b)"
        by (simp add: str_int_def)
      then have "hd (str_nat (nat b)) = CHR ''-''" by (metis list.sel(1))
      with str_nat_hd show ?thesis by blast
    qed
  next
    case a: False
    show ?thesis
    proof (cases "b < 0")
      case True
      with a eq have "str_nat (nat a) = CHR ''-'' # str_nat (nat (- b))"
        by (simp add: str_int_def)
      then have "hd (str_nat (nat a)) = CHR ''-''" by (metis list.sel(1))
      with str_nat_hd show ?thesis by blast
    next
      case False
      with a eq have "str_nat (nat a) = str_nat (nat b)" by (simp add: str_int_def)
      then have "nat a = nat b" by (rule str_nat_inj)
      with a False show ?thesis by simp
    qed
  qed
qed

lemma before_separator:
  "c \<notin> set a \<Longrightarrow> c \<notin> set b \<Longrightarrow> a @ c # x = b @ c # y \<Longrightarrow> a = b"
proof (induction a arbitrary: b)
  case Nil
  then show ?case by (cases b) auto
next
  case (Cons z a)
  then show ?case by (cases b) auto
qed

lemma status_messages_differ:
  assumes "c1 \<noteq> c2"
  shows "''Server returned status '' @ str_int c1 @ '': '' @ b1
       \<noteq> ''Server returned status '' @ str_int c2 @ '': '' @ b2"
proof
  assume "''Server returned status '' @ str_int c1 @ '': '' @ b1
        = ''Server returned status '' @ str_int c2 @ '': '' @ b2"
  then have "str_int c1 @ CHR '':'' # (CHR '' '' # b1) = str_int c2 @ CHR '':'' # (CHR '' '' # b2)"
    by simp
  with str_int_no_colon [of c1] str_int_no_colon [of c2]
  have "str_int c1 = str_int c2" by (rule before_separator)
  then have "c1 = c2" by (rule str_int_inj)
  with assms show False by simp
qed

text \<open>
  Claim C3, as stated: \<^verbatim>\<open>send_heartbeat\<close> logs a distinguishable cause for a refused
  connection and for a timeout. This fails for a timeout while connecting:
  \<^verbatim>\<open>requests\<close> raises it as \<^verbatim>\<open>ConnectTimeout\<close>, which is a \<^verbatim>\<open>Timeout\<close> and also a
  \<^verbatim>\<open>ConnectionError\<close>, and the clause for \<^verbatim>\<open>ConnectionError\<close> comes first. The entry
  logged is the one of an unreachable server, not \<^verbatim>\<open>Server request timed out\<close>.
\<close>

theorem connect_timeout_logged_as_refused_counterexample:
  "is_Timeout ConnectTimeout
   \<and> send_heartbeat sample_agent connect_timeout_env [] []
       = (Return False, [(ERROR, ''Cannot connect to server at http://x'')])
   \<and> send_heartbeat sample_agent unreachable_env [] []
       = (Return False, [(ERROR, ''Cannot connect to server at http://x'')])"
  by (simp add: send_heartbeat_def connect_timeout_env_def unreachable_env_def
      sample_agent_def py_str_def)

text \<open>
  Claim C3, amended. \<^verbatim>\<open>send_heartbeat\<close> always returns a boolean: whatever
  \<^verbatim>\<open>requests.post\<close> returns or raises, no exception leaves the call. It returns
  \<^verbatim>\<open>True\<close> if and only if the response has status 200. A connection error (a timeout
  while connecting included), a timeout that is no connection error, a response with
  another status, and any other exception each give \<^verbatim>\<open>False\<close> and one entry at level
  error. The messages of these four kinds differ from one another whatever texts are
  put into them, and two responses with different status codes log different messages.
\<close>

theorem send_heartbeat_outcomes:
  "(\<exists>b lg'. send_heartbeat self os status lg = (Return b, lg'))
   \<and> (fst (send_heartbeat self os status lg) = Return True \<longleftrightarrow>
        (\<exists>r. requests_post os (heartbeat_url self os) status (heartbeat_headers self os) 15
               = Inr r \<and> status_code r = 200))
   \<and> (\<forall>e. requests_post os (heartbeat_url self os) status (heartbeat_headers self os) 15
              = Inl e \<and> is_ConnectionError e
          \<longrightarrow> send_heartbeat self os status lg =
               (Return False,
                lg @ [(ERROR, ''Cannot connect to server at '' @ py_str os (server_url self))]))
   \<and> (\<forall>e. requests_post os (heartbeat_url self os) status (heartbeat_headers self os) 15
              = Inl e \<and> \<not> is_ConnectionError e \<and> is_Timeout e
          \<longrightarrow> send_heartbeat self os status lg =
               (Return False, lg @ [(ERROR, ''Server request timed out'')]))
   \<and> (\<forall>r. requests_post os (heartbeat_url self os) status (heartbeat_headers self os) 15
              = Inr r \<and> status_code r \<noteq> 200
          \<longrightarrow> send_heartbeat self os status lg =
               (Return False,
                lg @ [(ERROR, ''Server returned status '' @ str_int (status_code r)
                                @ '': '' @ resp_text r)]))
   \<and> (\<forall>e. requests_post os (heartbeat_url self os) status (heartbeat_headers self os) 15
              = Inl e \<and> \<not> is_ConnectionError e \<and> \<not> is_Timeout e
          \<longrightarrow> send_heartbeat self os status lg =
               (Return False,
                lg @ [(ERROR, ''Error sending heartbeat'' @ newline @ str_exn os e)]))
   \<and> (\<forall>u c b x.
          ''Cannot connect to server at '' @ u \<noteq> ''Server request timed out''
        \<and> ''Cannot connect to server at '' @ u \<noteq> ''Server returned status '' @ c @ '': '' @ b
        \<and> ''Cannot connect to server at '' @ u \<noteq> ''Error sending heartbeat'' @ newline @ x
        \<and> ''Server request timed out'' \<noteq> ''Server returned status '' @ c @ '': '' @ b
        \<and> ''Server request timed out'' \<noteq> ''Error sending heartbeat'' @ newline @ x
        \<and> ''Server returned status '' @ c @ '': '' @ b
             \<noteq> ''Error sending heartbeat'' @ newline @ x)
   \<and> (\<forall>c1 c2 b1 b2. c1 \<noteq> c2
          \<longrightarrow> ''Server returned status '' @ str_int c1 @ '': '' @ b1
                \<noteq> ''Server returned status '' @ str_int c2 @ '': '' @ b2)"
proof (intro conjI allI impI)
  show "\<exists>b lg'. send_heartbeat self os status lg = (Return b, lg')"
    by (rule send_heartbeat_returns)
  show "fst (send_heartbeat self os status lg) = Return True \<longleftrightarrow>
        (\<exists>r. requests_post os (heartbeat_url self os) status (heartbeat_headers self os) 15
               = Inr r \<and> status_code r = 200)"
    by (rule send_heartbeat_True_iff)
  show "''Server returned status '' @ str_int c1 @ '': '' @ b1
          \<noteq> ''Server returned status '' @ str_int c2 @ '': '' @ b2"
    if "c1 \<noteq> c2" for c1 c2 b1 b2
    using that by (rule status_messages_differ)
qed (simp_all add: send_heartbeat_def py_str_def)

theorem send_heartbeat_outcomes_witness:
  "send_heartbeat sample_agent unauthorized_env [] []
     = (Return False, [(ERROR, ''Server returned status 401: denied'')])
   \<and> send_heartbeat sample_agent read_timeout_env [] []
     = (Return False, [(ERROR, ''Server request timed out'')])
   \<and> ''Server returned status '' @ str_int 401 @ '': '' @ ''denied''
     \<noteq> ''Server returned status '' @ str_int 500 @ '': '' @ ''denied''"
proof -
  have "send_heartbeat sample_agent unauthorized_env [] [] =
      (Return False,
       [] @ [(ERROR, ''Server returned status ''
                @ str_int (status_code \<lparr>status_code = 401, resp_text = ''denied''\<rparr>)
                @ '': '' @ resp_text \<lparr>status_code = 401, resp_text = ''denied''\<rparr>)])"
    by (rule send_heartbeat_outcomes [THEN conjunct2, THEN conjunct2, THEN conjunct2,
          THEN conjunct2, THEN conjunct1, rule_format])
       (simp add: unauthorized_env_def)
  moreover have "str_int 401 = ''401''"
    by (simp add: str_int_def str_nat.simps digit_char_def)
  moreover have "send_heartbeat sample_agent read_timeout_env [] []
     = (Return False, [] @ [(ERROR, ''Server request timed out'')])"
    by (rule send_heartbeat_outcomes [THEN conjunct2, THEN conjunct2, THEN conjunct2,
          THEN conjunct1, rule_format, where e = ReadTimeout])
       (simp add: read_timeout_env_def)
  moreover have "''Server returned status '' @ str_int 401 @ '': '' @ ''denied''
     \<noteq> ''Server returned status '' @ str_int 500 @ '': '' @ ''denied''"
    by (rule send_heartbeat_outcomes [THEN conjunct2, THEN conjunct2, THEN conjunct2,
          THEN conjunct2, THEN conjunct2, THEN conjunct2, THEN conjunct2, rule_format])
       simp
  ultimately show ?thesis by simp
qed

text \<open>
  Claim C8. Once the agent is built and \<^verbatim>\<open>collect_status\<close> has returned a report, the
  script runs to its end with exit status 0 whatever happens to the transmission; when
  the server cannot be reached, \<^verbatim>\<open>send_heartbeat\<close> returns \<^verbatim>\<open>False\<close> and the last log
  entry names the connection failure. A configuration file that cannot be loaded, and
  an exception out of \<^verbatim>\<open>collect_status\<close>, end the script with status 1; so a status
  other than 0 comes from building the agent or from an exception during the cycle.
\<close>

theorem failed_heartbeat_is_not_fatal:
  "(\<forall>self lg0 status lg1.
       RigAgent_init os module_log = (Return self, lg0)
       \<and> collect_status self os (lg0 @ [(INFO, ''HIL Agent Run at '' @ utc_isoformat_run os)])
           = (Return status, lg1)
       \<longrightarrow> main os = (Completed, snd (send_heartbeat self os status lg1))
           \<and> exit_status (fst (main os)) = 0)
   \<and> (\<forall>self lg0 status lg1 e.
       RigAgent_init os module_log = (Return self, lg0)
       \<and> collect_status self os (lg0 @ [(INFO, ''HIL Agent Run at '' @ utc_isoformat_run os)])
           = (Return status, lg1)
       \<and> requests_post os (heartbeat_url self os) status (heartbeat_headers self os) 15 = Inl e
       \<and> is_ConnectionError e
       \<longrightarrow> send_heartbeat self os status lg1 =
             (Return False,
              lg1 @ [(ERROR, ''Cannot connect to server at '' @ py_str os (server_url self))])
           \<and> main os =
             (Completed,
              lg1 @ [(ERROR, ''Cannot connect to server at '' @ py_str os (server_url self))]))
   \<and> (\<forall>e. open_json_load os = Inl e \<longrightarrow> exit_status (fst (main os)) = 1)
   \<and> (\<forall>self lg0 e lg1.
       RigAgent_init os module_log = (Return self, lg0)
       \<and> collect_status self os (lg0 @ [(INFO, ''HIL Agent Run at '' @ utc_isoformat_run os)])
           = (Raise e, lg1)
       \<longrightarrow> main os =
             (Exited 1, lg1 @ [(ERROR, ''Error in agent run'' @ newline @ str_exn os e)])
           \<and> exit_status (fst (main os)) = 1)"
proof (intro conjI allI impI; (elim conjE)?)
  fix self lg0 status lg1
  assume init: "RigAgent_init os module_log = (Return self, lg0)"
    and cs: "collect_status self os (lg0 @ [(INFO, ''HIL Agent Run at '' @ utc_isoformat_run os)])
           = (Return status, lg1)"
  from run_after_collect_status [OF cs]
  show main: "main os = (Completed, snd (send_heartbeat self os status lg1))"
    by (simp add: main_def init)
  then show "exit_status (fst (main os)) = 0" by simp
  fix e
  assume "requests_post os (heartbeat_url self os) status (heartbeat_headers self os) 15 = Inl e"
    and "is_ConnectionError e"
  then show sh: "send_heartbeat self os status lg1 =
       (Return False,
        lg1 @ [(ERROR, ''Cannot connect to server at '' @ py_str os (server_url self))])"
    by (simp add: send_heartbeat_def)
  with main show "main os =
       (Completed,
        lg1 @ [(ERROR, ''Cannot connect to server at '' @ py_str os (server_url self))])"
    by simp
next
  fix e
  assume "open_json_load os = Inl e"
  from load_config_failure [OF this, of module_log]
  show "exit_status (fst (main os)) = 1"
    by (auto simp: main_def RigAgent_init_def)
next
  fix self lg0 e lg1
  assume init: "RigAgent_init os module_log = (Return self, lg0)"
    and cs: "collect_status self os (lg0 @ [(INFO, ''HIL Agent Run at '' @ utc_isoformat_run os)])
           = (Raise e, lg1)"
  then show main: "main os =
       (Exited 1, lg1 @ [(ERROR, ''Error in agent run'' @ newline @ str_exn os e)])"
    by (simp add: main_def run_def)
  then show "exit_status (fst (main os)) = 1" by simp
qed

theorem failed_heartbeat_is_not_fatal_witness:
  "fst (main unreachable_env) = Completed
   \<and> last (snd (main unreachable_env)) = (ERROR, ''Cannot connect to server at http://x'')
   \<and> exit_status (fst (main unreachable_env)) = 0"
proof -
  have init: "RigAgent_init unreachable_env module_log = (Return sample_agent, module_log)"
    by (rule sample_init) (simp add: unreachable_env_def sample_env_def)
  have "\<exists>report lg'. collect_status sample_agent unreachable_env
          (module_log @ [(INFO, ''HIL Agent Run at '' @ utc_isoformat_run unreachable_env)])
        = (Return report, lg')"
    by (rule collect_status_returns [where t = False and n = None and boot = 0])
       (simp_all add: unreachable_env_def sample_agent_def sample_env_def sample_config_def
          check_test_running_def dict_get_default_def dict_get_def)
  then obtain report lg1 where cs: "collect_status sample_agent unreachable_env
          (module_log @ [(INFO, ''HIL Agent Run at '' @ utc_isoformat_run unreachable_env)])
        = (Return report, lg1)"
    by blast
  have post: "requests_post unreachable_env (heartbeat_url sample_agent unreachable_env) report
       (heartbeat_headers sample_agent unreachable_env) 15 = Inl ConnectionError"
    by (simp add: unreachable_env_def)
  have "main unreachable_env =
     (Completed,
      lg1 @ [(ERROR, ''Cannot connect to server at ''
                 @ py_str unreachable_env (server_url sample_agent))])"
    using failed_heartbeat_is_not_fatal [of unreachable_env, THEN conjunct2, THEN conjunct1,
        rule_format, of sample_agent module_log report lg1 ConnectionError]
      init cs post
    by simp
  moreover have "py_str unreachable_env (server_url sample_agent) = ''http://x''"
    by (simp add: sample_agent_def py_str_def)
  ultimately show ?thesis by simp
qed

text \<open>
  Claim C10. When the configuration file parses to a JSON object that lacks
  \<^verbatim>\<open>server_url\<close>, \<^verbatim>\<open>api_key\<close> or \<^verbatim>\<open>rig_id\<close>, \<^verbatim>\<open>RigAgent.__init__\<close> raises
  \<^verbatim>\<open>KeyError\<close> for the first missing key. Nothing is logged (the log still is the
  module's four start-up entries) and no handler is around the constructor: the script
  dies of the exception instead of leaving through \<^verbatim>\<open>sys.exit(1)\<close>.
\<close>

theorem missing_required_key_dies_unlogged:
  assumes "open_json_load os = Inr (JObj d)"
    and "dict_get d ''server_url'' = None \<or> dict_get d ''api_key'' = None
           \<or> dict_get d ''rig_id'' = None"
  shows "\<exists>k. (k = ''server_url'' \<or> k = ''api_key'' \<or> k = ''rig_id'')
           \<and> dict_get d k = None
           \<and> RigAgent_init os module_log = (Raise (KeyError k), module_log)
           \<and> main os = (Died (KeyError k), module_log)"
proof -
  have lc: "load_config os module_log = (Return (JObj d), module_log)"
    using assms(1) by (simp add: load_config_def)
  show ?thesis
  proof (cases "dict_get d ''server_url''")
    case None
    then have "RigAgent_init os module_log = (Raise (KeyError ''server_url''), module_log)"
      by (simp add: RigAgent_init_def lc getitem_def and_then_def)
    with None show ?thesis by (auto simp: main_def)
  next
    case url: (Some url)
    show ?thesis
    proof (cases "dict_get d ''api_key''")
      case None
      then have "RigAgent_init os module_log = (Raise (KeyError ''api_key''), module_log)"
        by (simp add: RigAgent_init_def lc getitem_def and_then_def url)
      with None show ?thesis by (auto simp: main_def)
    next
      case key: (Some key)
      with url assms(2) have none: "dict_get d ''rig_id'' = None" by simp
      then have "RigAgent_init os module_log = (Raise (KeyError ''rig_id''), module_log)"
        by (simp add: RigAgent_init_def lc getitem_def and_then_def url key)
      with none show ?thesis by (auto simp: main_def)
    qed
  qed
qed

theorem missing_required_key_dies_unlogged_witness:
  "main incomplete_env = (Died (KeyError ''rig_id''), module_log)
   \<and> exit_status (fst (main incomplete_env)) = 1"
proof -
  have cfg: "open_json_load incomplete_env
      = Inr (JObj [(''server_url'', JStr ''http://x''), (''api_key'', JStr ''k'')])"
    by (simp add: incomplete_env_def)
  have missing: "dict_get [(''server_url'', JStr ''http://x''), (''api_key'', JStr ''k'')]
       ''server_url'' = None
     \<or> dict_get [(''server_url'', JStr ''http://x''), (''api_key'', JStr ''k'')]
       ''api_key'' = None
     \<or> dict_get [(''server_url'', JStr ''http://x''), (''api_key'', JStr ''k'')]
       ''rig_id'' = None"
    by (simp add: dict_get_def)
  from missing_required_key_dies_unlogged [OF cfg missing]
  obtain k where k: "dict_get [(''server_url'', JStr ''http://x''), (''api_key'', JStr ''k'')] k
        = None"
    "k = ''server_url'' \<or> k = ''api_key'' \<or> k = ''rig_id''"
    "main incomplete_env = (Died (KeyError k), module_log)"
    by blast
  from k(1,2) have "k = ''rig_id''" by (auto simp: dict_get_def)
  with k(3) show ?thesis by simp
qed

end
